theory Spec2Isabelle
  imports Complex_Main "HOL-Library.Sublist"
begin

section \<open>The promote-and-cleanup cloud function (main.py)\<close>

text \<open>
  The function talks to a remote compute service through four client objects, sleeps,
  and reads the clock. The model makes this explicit: every remote call and every
  \<^verbatim>\<open>time.sleep\<close> is appended to a trace of events, and the collaborator is a
  record of functions that answer a call given the trace so far (so an answer may
  depend on everything that happened before, including the time slept).
  Logging has no influence on control flow and is left out.

  The polling loops of the source have no bound (\<^verbatim>\<open>while True\<close>, or a bound on
  the wall clock). Each such loop takes a number \<open>fuel\<close> of iterations it may run;
  a loop that has not finished within its fuel yields \<open>Unfinished\<close> together with
  the trace up to that point. \<open>Unfinished\<close> is not an exception of the program:
  no \<^verbatim>\<open>except\<close> clause catches it.
\<close>

subsection \<open>Data of the client library, as main.py uses it\<close>

text \<open>
  The client library is not part of the repository. Its types are modelled from the
  fields and enumeration members main.py reads and writes.
\<close>

datatype operation_status = DONE | PENDING | OP_RUNNING | UNDEFINED_OP_STATUS

datatype instance_status =
    PROVISIONING | STAGING | RUNNING | STOPPING | STOPPED | SUSPENDING | SUSPENDED
  | REPAIRING | TERMINATED | DEPROVISIONING | UNDEFINED_STATUS

text \<open>
  \<open>op_error\<close> is \<open>None\<close> when the operation's error field is falsy (unset), and
  \<open>Some p\<close> when it is set, \<open>p\<close> being the text \<^verbatim>\<open>str(operation.error)\<close>.
\<close>

record operation =
  op_name :: string
  op_status :: operation_status
  op_error :: "string option"

record attached_disk =
  disk_boot :: bool
  disk_source :: string

record vm_instance =
  inst_status :: instance_status
  inst_disks :: "attached_disk list"

record image =
  img_name :: string
  img_description :: string
  img_source_disk :: string
  img_family :: string
  img_labels :: "(string \<times> string) list"

record datetime =
  dt_year :: nat
  dt_month :: nat
  dt_day :: nat
  dt_hour :: nat
  dt_minute :: nat
  dt_second :: nat
  dt_microsecond :: nat

subsection \<open>Exceptions\<close>

text \<open>
  Every exception main.py can see is an \<^verbatim>\<open>Exception\<close>; the code only ever looks at
  its text. The constructors record where it was raised:
  \<^item> \<open>ClientError m\<close>: raised by a call of a client object, with \<^verbatim>\<open>str(e) = m\<close>;
  \<^item> \<open>OperationFailed p\<close>: \<^verbatim>\<open>Exception(f"Operation failed: {operation.error}")\<close>
    of the two waiters;
  \<^item> \<open>NoBootDisk n\<close>: \<^verbatim>\<open>Exception(f"Could not find boot disk for instance {n}")\<close>;
  \<^item> \<open>DecodeError m\<close>: raised while decoding the event payload.
\<close>

datatype exn =
    ClientError string
  | OperationFailed string
  | NoBootDisk string
  | DecodeError string

fun str :: "exn \<Rightarrow> string" where
  "str (ClientError m) = m"
| "str (OperationFailed p) = ''Operation failed: '' @ p"
| "str (NoBootDisk n) = ''Could not find boot disk for instance '' @ n"
| "str (DecodeError m) = m"

datatype 'a outcome = Returns 'a | Raises exn | Unfinished

subsection \<open>Trace and collaborator\<close>

datatype event =
    InstancesGet string string string "string + vm_instance"
  | InstancesStop string string string "string + operation"
  | InstancesDelete string string string "string + operation"
  | ImagesInsert string image "string + operation"
  | ZoneOperationsGet string string string "string + operation"
  | GlobalOperationsGet string string "string + operation"
  | Sleep int

type_synonym trace = "event list"

text \<open>
  The answers of the outside world. A client call answers \<open>Inl m\<close> when it raises an
  exception with text \<open>m\<close>. \<open>b64decode_utf8\<close> stands for
  \<^verbatim>\<open>base64.b64decode(s).decode('utf-8')\<close> and \<open>GCP_PROJECT\<close> for the process
  environment variable of that name.
\<close>

record collab =
  instances_get :: "trace \<Rightarrow> string \<Rightarrow> string \<Rightarrow> string \<Rightarrow> string + vm_instance"
  instances_stop :: "trace \<Rightarrow> string \<Rightarrow> string \<Rightarrow> string \<Rightarrow> string + operation"
  instances_delete :: "trace \<Rightarrow> string \<Rightarrow> string \<Rightarrow> string \<Rightarrow> string + operation"
  images_insert :: "trace \<Rightarrow> string \<Rightarrow> image \<Rightarrow> string + operation"
  zone_operations_get :: "trace \<Rightarrow> string \<Rightarrow> string \<Rightarrow> string \<Rightarrow> string + operation"
  global_operations_get :: "trace \<Rightarrow> string \<Rightarrow> string \<Rightarrow> string + operation"
  time_time :: "trace \<Rightarrow> real"
  datetime_now :: "trace \<Rightarrow> datetime"
  b64decode_utf8 :: "string \<Rightarrow> string + string"
  GCP_PROJECT :: "string option"

definition PROJECT_ID :: "collab \<Rightarrow> string" where
  "PROJECT_ID env = (case GCP_PROJECT env of Some p \<Rightarrow> p | None \<Rightarrow> ''sandbox-dev-478813'')"

definition ZONE :: string where
  "ZONE = ''us-central1-a''"

definition call_instances_get ::
  "collab \<Rightarrow> string \<Rightarrow> string \<Rightarrow> string \<Rightarrow> trace \<Rightarrow> (string + vm_instance) \<times> trace" where
  "call_instances_get env project zone inst t =
     (instances_get env t project zone inst,
      t @ [InstancesGet project zone inst (instances_get env t project zone inst)])"

definition call_instances_stop ::
  "collab \<Rightarrow> string \<Rightarrow> string \<Rightarrow> string \<Rightarrow> trace \<Rightarrow> (string + operation) \<times> trace" where
  "call_instances_stop env project zone inst t =
     (instances_stop env t project zone inst,
      t @ [InstancesStop project zone inst (instances_stop env t project zone inst)])"

definition call_instances_delete ::
  "collab \<Rightarrow> string \<Rightarrow> string \<Rightarrow> string \<Rightarrow> trace \<Rightarrow> (string + operation) \<times> trace" where
  "call_instances_delete env project zone inst t =
     (instances_delete env t project zone inst,
      t @ [InstancesDelete project zone inst (instances_delete env t project zone inst)])"

definition call_images_insert ::
  "collab \<Rightarrow> string \<Rightarrow> image \<Rightarrow> trace \<Rightarrow> (string + operation) \<times> trace" where
  "call_images_insert env project img t =
     (images_insert env t project img,
      t @ [ImagesInsert project img (images_insert env t project img)])"

definition call_zone_operations_get ::
  "collab \<Rightarrow> string \<Rightarrow> string \<Rightarrow> string \<Rightarrow> trace \<Rightarrow> (string + operation) \<times> trace" where
  "call_zone_operations_get env project zone opn t =
     (zone_operations_get env t project zone opn,
      t @ [ZoneOperationsGet project zone opn (zone_operations_get env t project zone opn)])"

definition call_global_operations_get ::
  "collab \<Rightarrow> string \<Rightarrow> string \<Rightarrow> trace \<Rightarrow> (string + operation) \<times> trace" where
  "call_global_operations_get env project opn t =
     (global_operations_get env t project opn,
      t @ [GlobalOperationsGet project opn (global_operations_get env t project opn)])"

subsection \<open>Strings\<close>

text \<open>
  \<^verbatim>\<open>s.lower()\<close> and \<^verbatim>\<open>a in s\<close> on strings. Only the ASCII letters are mapped:
  the texts searched for (\<^verbatim>\<open>not found\<close>, \<^verbatim>\<open>not_found\<close>, \<^verbatim>\<open>true\<close>) are ASCII.
\<close>

definition lower_char :: "char \<Rightarrow> char" where
  "lower_char c =
     (case map_of (zip ''ABCDEFGHIJKLMNOPQRSTUVWXYZ'' ''abcdefghijklmnopqrstuvwxyz'') c of
        Some d \<Rightarrow> d
      | None \<Rightarrow> c)"

definition lower :: "string \<Rightarrow> string" where
  "lower s = map lower_char s"

fun starts_with :: "string \<Rightarrow> string \<Rightarrow> bool" where
  "starts_with [] s = True"
| "starts_with (a # as) [] = False"
| "starts_with (a # as) (c # cs) = (a = c \<and> starts_with as cs)"

fun contains :: "string \<Rightarrow> string \<Rightarrow> bool" where
  "contains a [] = (a = [])"
| "contains a (c # cs) = (starts_with a (c # cs) \<or> contains a cs)"

definition digit_char :: "nat \<Rightarrow> char" where
  "digit_char n = ''0123456789'' ! (n mod 10)"

definition zero_pad2 :: "nat \<Rightarrow> string" where
  "zero_pad2 n = [digit_char (n div 10), digit_char n]"

definition zero_pad4 :: "nat \<Rightarrow> string" where
  "zero_pad4 n = [digit_char (n div 1000), digit_char (n div 100), digit_char (n div 10), digit_char n]"

definition zero_pad6 :: "nat \<Rightarrow> string" where
  "zero_pad6 n = [digit_char (n div 100000), digit_char (n div 10000)] @ zero_pad4 n"

text \<open>\<^verbatim>\<open>strftime('%Y%m%d-%H%M%S')\<close> and \<^verbatim>\<open>isoformat()\<close> of a naive datetime.\<close>

definition strftime_Ymd_HMS :: "datetime \<Rightarrow> string" where
  "strftime_Ymd_HMS d =
     zero_pad4 (dt_year d) @ zero_pad2 (dt_month d) @ zero_pad2 (dt_day d) @ ''-'' @
     zero_pad2 (dt_hour d) @ zero_pad2 (dt_minute d) @ zero_pad2 (dt_second d)"

definition isoformat :: "datetime \<Rightarrow> string" where
  "isoformat d =
     zero_pad4 (dt_year d) @ ''-'' @ zero_pad2 (dt_month d) @ ''-'' @ zero_pad2 (dt_day d) @ ''T'' @
     zero_pad2 (dt_hour d) @ '':'' @ zero_pad2 (dt_minute d) @ '':'' @ zero_pad2 (dt_second d) @
     (if dt_microsecond d = 0 then [] else ''.'' @ zero_pad6 (dt_microsecond d))"

subsection \<open>The two waiters\<close>

fun wait_for_zone_operation ::
  "nat \<Rightarrow> collab \<Rightarrow> string \<Rightarrow> string \<Rightarrow> string \<Rightarrow> trace \<Rightarrow> unit outcome \<times> trace" where
  "wait_for_zone_operation 0 env operation_name project_id zone t = (Unfinished, t)"
| "wait_for_zone_operation (Suc fuel) env operation_name project_id zone t =
     (case call_zone_operations_get env project_id zone operation_name t of
        (Inl m, t1) \<Rightarrow> (Raises (ClientError m), t1)
      | (Inr operation, t1) \<Rightarrow>
          if op_status operation = DONE then
            (case op_error operation of
               Some p \<Rightarrow> (Raises (OperationFailed p), t1)
             | None \<Rightarrow> (Returns (), t1))
          else wait_for_zone_operation fuel env operation_name project_id zone (t1 @ [Sleep 2]))"

fun wait_for_global_operation ::
  "nat \<Rightarrow> collab \<Rightarrow> string \<Rightarrow> string \<Rightarrow> trace \<Rightarrow> unit outcome \<times> trace" where
  "wait_for_global_operation 0 env operation_name project_id t = (Unfinished, t)"
| "wait_for_global_operation (Suc fuel) env operation_name project_id t =
     (case call_global_operations_get env project_id operation_name t of
        (Inl m, t1) \<Rightarrow> (Raises (ClientError m), t1)
      | (Inr operation, t1) \<Rightarrow>
          if op_status operation = DONE then
            (case op_error operation of
               Some p \<Rightarrow> (Raises (OperationFailed p), t1)
             | None \<Rightarrow> (Returns (), t1))
          else wait_for_global_operation fuel env operation_name project_id (t1 @ [Sleep 2]))"

subsection \<open>Image promotion\<close>

text \<open>
  The loop over \<^verbatim>\<open>instance.disks\<close>: the source of the first disk flagged boot,
  \<open>None\<close> when there is none.
\<close>

fun boot_disk_source_of :: "attached_disk list \<Rightarrow> string option" where
  "boot_disk_source_of [] = None"
| "boot_disk_source_of (disk # disks) =
     (if disk_boot disk then Some (disk_source disk) else boot_disk_source_of disks)"

definition promoted_image_resource :: "string \<Rightarrow> string \<Rightarrow> string \<Rightarrow> image" where
  "promoted_image_resource instance_name image_name boot_disk_source =
     \<lparr> img_name = image_name,
       img_description = ''Promoted image from validated VM '' @ instance_name,
       img_source_disk = boot_disk_source,
       img_family = ''rhel9-runtime'',
       img_labels = [(''source_image'', instance_name),
                     (''validation_status'', ''passed''),
                     (''created_by'', ''promote-cleanup-function'')] \<rparr>"

text \<open>
  The \<^verbatim>\<open>except\<close> clause around the body only logs and re-raises.
  \<^verbatim>\<open>if not boot_disk_source\<close> is true for \<^verbatim>\<open>None\<close> and for the empty string.
\<close>

definition create_image_from_vm ::
  "nat \<Rightarrow> collab \<Rightarrow> string \<Rightarrow> string \<Rightarrow> string \<Rightarrow> trace \<Rightarrow> string outcome \<times> trace" where
  "create_image_from_vm fuel env instance_name image_name project_id t =
     (case call_instances_stop env project_id ZONE instance_name t of
        (Inl m, t1) \<Rightarrow> (Raises (ClientError m), t1)
      | (Inr operation, t1) \<Rightarrow>
     (case wait_for_zone_operation fuel env (op_name operation) project_id ZONE t1 of
        (Raises e, t2) \<Rightarrow> (Raises e, t2)
      | (Unfinished, t2) \<Rightarrow> (Unfinished, t2)
      | (Returns _, t2) \<Rightarrow>
     (case call_instances_get env project_id ZONE instance_name t2 of
        (Inl m, t3) \<Rightarrow> (Raises (ClientError m), t3)
      | (Inr inst, t3) \<Rightarrow>
     (case boot_disk_source_of (inst_disks inst) of
        None \<Rightarrow> (Raises (NoBootDisk instance_name), t3)
      | Some boot_disk_source \<Rightarrow>
          if boot_disk_source = [] then (Raises (NoBootDisk instance_name), t3)
          else
     (case call_images_insert env project_id
             (promoted_image_resource instance_name image_name boot_disk_source) t3 of
        (Inl m, t4) \<Rightarrow> (Raises (ClientError m), t4)
      | (Inr operation', t4) \<Rightarrow>
     (case wait_for_global_operation fuel env (op_name operation') project_id t4 of
        (Raises e, t5) \<Rightarrow> (Raises e, t5)
      | (Unfinished, t5) \<Rightarrow> (Unfinished, t5)
      | (Returns _, t5) \<Rightarrow> (Returns image_name, t5 @ [Sleep 30])))))))"

subsection \<open>Probing the instance\<close>

definition check_vm_exists ::
  "collab \<Rightarrow> string \<Rightarrow> string \<Rightarrow> trace \<Rightarrow> bool outcome \<times> trace" where
  "check_vm_exists env instance_name project_id t =
     (case call_instances_get env project_id ZONE instance_name t of
        (Inr inst, t1) \<Rightarrow> (Returns True, t1)
      | (Inl m, t1) \<Rightarrow>
          if contains ''not found'' (lower m) \<or> contains ''NOT_FOUND'' m
          then (Returns False, t1)
          else (Raises (ClientError m), t1))"

text \<open>
  The loop of \<^verbatim>\<open>wait_for_vm_stable\<close>; \<open>start_time\<close> is the clock read before it.
  The loop condition is tested before an iteration is charged to the fuel.
\<close>

fun wait_for_vm_stable_loop ::
  "nat \<Rightarrow> collab \<Rightarrow> string \<Rightarrow> string \<Rightarrow> int \<Rightarrow> real \<Rightarrow> trace \<Rightarrow> bool outcome \<times> trace" where
  "wait_for_vm_stable_loop 0 env instance_name project_id max_wait_seconds start_time t =
     (if time_time env t - start_time < real_of_int max_wait_seconds
      then (Unfinished, t) else (Returns False, t))"
| "wait_for_vm_stable_loop (Suc fuel) env instance_name project_id max_wait_seconds start_time t =
     (if time_time env t - start_time < real_of_int max_wait_seconds then
        (case call_instances_get env project_id ZONE instance_name t of
           (Inl m, t1) \<Rightarrow>
             if contains ''not found'' (lower m) \<or> contains ''NOT_FOUND'' m
             then (Returns False, t1)
             else (Raises (ClientError m), t1)
         | (Inr inst, t1) \<Rightarrow>
             if inst_status inst \<in> {TERMINATED, STOPPED, RUNNING} then (Returns True, t1)
             else wait_for_vm_stable_loop fuel env instance_name project_id max_wait_seconds
                    start_time (t1 @ [Sleep 5]))
      else (Returns False, t))"

definition wait_for_vm_stable ::
  "nat \<Rightarrow> collab \<Rightarrow> string \<Rightarrow> string \<Rightarrow> int \<Rightarrow> trace \<Rightarrow> bool outcome \<times> trace" where
  "wait_for_vm_stable fuel env instance_name project_id max_wait_seconds t =
     wait_for_vm_stable_loop fuel env instance_name project_id max_wait_seconds (time_time env t) t"

subsection \<open>Deleting the instance\<close>

text \<open>
  The body of the inner \<^verbatim>\<open>try\<close> that stops a running instance (lines 200 to 213),
  and the whole statement with its \<^verbatim>\<open>except Exception\<close> clause, which only logs.
\<close>

definition stop_if_running ::
  "nat \<Rightarrow> collab \<Rightarrow> string \<Rightarrow> string \<Rightarrow> trace \<Rightarrow> unit outcome \<times> trace" where
  "stop_if_running fuel env instance_name project_id t =
     (case call_instances_get env project_id ZONE instance_name t of
        (Inl m, t1) \<Rightarrow> (Raises (ClientError m), t1)
      | (Inr inst, t1) \<Rightarrow>
          if inst_status inst = RUNNING then
            (case call_instances_stop env project_id ZONE instance_name t1 of
               (Inl m, t2) \<Rightarrow> (Raises (ClientError m), t2)
             | (Inr stop_operation, t2) \<Rightarrow>
                 wait_for_zone_operation fuel env (op_name stop_operation) project_id ZONE t2)
          else (Returns (), t1))"

definition try_stop ::
  "nat \<Rightarrow> collab \<Rightarrow> string \<Rightarrow> string \<Rightarrow> trace \<Rightarrow> unit outcome \<times> trace" where
  "try_stop fuel env instance_name project_id t =
     (case stop_if_running fuel env instance_name project_id t of
        (Raises stop_error, t1) \<Rightarrow> (Returns (), t1)
      | r \<Rightarrow> r)"

text \<open>
  The force path (lines 242 to 264). Its inner \<^verbatim>\<open>try\<close> has a bare
  \<^verbatim>\<open>except: pass\<close>. The outer handler re-raises unless the lowered text
  contains \<^verbatim>\<open>not found\<close>.
\<close>

definition force_stop ::
  "nat \<Rightarrow> collab \<Rightarrow> string \<Rightarrow> string \<Rightarrow> trace \<Rightarrow> unit outcome \<times> trace" where
  "force_stop fuel env instance_name project_id t =
     (case call_instances_get env project_id ZONE instance_name t of
        (Inl m, t1) \<Rightarrow> (Returns (), t1)
      | (Inr inst, t1) \<Rightarrow>
          if inst_status inst \<in> {RUNNING, STOPPING} then
            (case call_instances_stop env project_id ZONE instance_name t1 of
               (Inl m, t2) \<Rightarrow> (Returns (), t2)
             | (Inr stop_op, t2) \<Rightarrow>
                 (case wait_for_zone_operation fuel env (op_name stop_op) project_id ZONE t2 of
                    (Returns _, t3) \<Rightarrow> (Returns (), t3 @ [Sleep 5])
                  | (Raises e, t3) \<Rightarrow> (Returns (), t3)
                  | (Unfinished, t3) \<Rightarrow> (Unfinished, t3)))
          else (Returns (), t1))"

definition delete_and_wait ::
  "nat \<Rightarrow> collab \<Rightarrow> string \<Rightarrow> string \<Rightarrow> trace \<Rightarrow> unit outcome \<times> trace" where
  "delete_and_wait fuel env instance_name project_id t =
     (case call_instances_delete env project_id ZONE instance_name t of
        (Inl m, t1) \<Rightarrow> (Raises (ClientError m), t1)
      | (Inr operation, t1) \<Rightarrow>
          (case wait_for_zone_operation fuel env (op_name operation) project_id ZONE t1 of
             (Returns _, t2) \<Rightarrow> (Returns (), t2 @ [Sleep 10])
           | r \<Rightarrow> r))"

definition force_delete ::
  "nat \<Rightarrow> collab \<Rightarrow> string \<Rightarrow> string \<Rightarrow> trace \<Rightarrow> unit outcome \<times> trace" where
  "force_delete fuel env instance_name project_id t =
     (case force_stop fuel env instance_name project_id t of
        (Returns _, t1) \<Rightarrow>
          (case delete_and_wait fuel env instance_name project_id t1 of
             (Raises force_error, t2) \<Rightarrow>
               if \<not> contains ''not found'' (lower (str force_error))
               then (Raises force_error, t2)
               else (Returns (), t2)
           | r \<Rightarrow> r)
      | r \<Rightarrow> r)"

text \<open>
  The delete statement with its handler (lines 220 to 267): the first delete and its
  wait are the same calls as in the force path (lines 221 to 236 and 255 to 259).
\<close>

definition try_delete ::
  "nat \<Rightarrow> collab \<Rightarrow> string \<Rightarrow> string \<Rightarrow> trace \<Rightarrow> unit outcome \<times> trace" where
  "try_delete fuel env instance_name project_id t =
     (case delete_and_wait fuel env instance_name project_id t of
        (Raises delete_error, t1) \<Rightarrow>
          if \<not> contains ''not found'' (lower (str delete_error))
          then force_delete fuel env instance_name project_id t1
          else (Returns (), t1)
      | r \<Rightarrow> r)"

text \<open>
  One pass through the body of the outer \<^verbatim>\<open>try\<close> (lines 187 to 267). Every path
  through it ends in \<^verbatim>\<open>return\<close> or in an exception, so \<open>Returns ()\<close> means that
  \<^verbatim>\<open>delete_vm\<close> returns. \<^verbatim>\<open>wait_for_vm_stable\<close> is called with its default
  of 60 seconds, and its result only decides what is logged.
\<close>

definition delete_vm_attempt ::
  "nat \<Rightarrow> collab \<Rightarrow> string \<Rightarrow> string \<Rightarrow> trace \<Rightarrow> unit outcome \<times> trace" where
  "delete_vm_attempt fuel env instance_name project_id t =
     (case check_vm_exists env instance_name project_id t of
        (Raises e, t1) \<Rightarrow> (Raises e, t1)
      | (Unfinished, t1) \<Rightarrow> (Unfinished, t1)
      | (Returns vm_exists, t1) \<Rightarrow>
          if \<not> vm_exists then (Returns (), t1)
          else
            (case wait_for_vm_stable fuel env instance_name project_id 60 t1 of
               (Raises e, t2) \<Rightarrow> (Raises e, t2)
             | (Unfinished, t2) \<Rightarrow> (Unfinished, t2)
             | (Returns is_stable, t2) \<Rightarrow>
                 (case try_stop fuel env instance_name project_id t2 of
                    (Returns _, t3) \<Rightarrow> try_delete fuel env instance_name project_id t3
                  | r \<Rightarrow> r)))"

text \<open>
  The \<^verbatim>\<open>for attempt in range(1, max_retries + 1)\<close> loop from \<open>attempt\<close> on, with
  the handler of the outer \<^verbatim>\<open>try\<close> (lines 269 to 281). An empty range falls
  through to the end of the function, which returns.
\<close>

function delete_vm_from ::
  "nat \<Rightarrow> collab \<Rightarrow> string \<Rightarrow> string \<Rightarrow> int \<Rightarrow> int \<Rightarrow> trace \<Rightarrow> unit outcome \<times> trace" where
  "delete_vm_from fuel env instance_name project_id max_retries attempt t =
     (if max_retries < attempt then (Returns (), t)
      else
        (case delete_vm_attempt fuel env instance_name project_id t of
           (Raises e, t1) \<Rightarrow>
             if contains ''not found'' (lower (str e)) \<or> contains ''not_found'' (lower (str e))
             then (Returns (), t1)
             else if attempt < max_retries
               then delete_vm_from fuel env instance_name project_id max_retries (attempt + 1)
                      (t1 @ [Sleep (attempt * 5)])
               else (Raises e, t1)
         | r \<Rightarrow> r))"
  by pat_completeness auto
termination
  by (relation "measure (\<lambda>(fuel, env, instance_name, project_id, max_retries, attempt, t).
        nat (max_retries + 1 - attempt))") auto

declare delete_vm_from.simps [simp del]

definition delete_vm ::
  "nat \<Rightarrow> collab \<Rightarrow> string \<Rightarrow> string \<Rightarrow> int \<Rightarrow> trace \<Rightarrow> unit outcome \<times> trace" where
  "delete_vm fuel env instance_name project_id max_retries t =
     delete_vm_from fuel env instance_name project_id max_retries 1 t"

subsection \<open>The entry point\<close>

text \<open>
  The triggering event: the payload under \<^verbatim>\<open>'data'\<close> (if the key is present) and
  the mapping under \<^verbatim>\<open>'attributes'\<close> (if the key is present). The second
  argument \<^verbatim>\<open>context\<close> is not used.
\<close>

record pubsub_event =
  ev_data :: "string option"
  ev_attributes :: "(string \<rightharpoonup> string) option"

record promote_result =
  res_status :: string
  res_promoted_image :: "string option"
  res_validation_instance :: string
  res_timestamp :: string

text \<open>\<^verbatim>\<open>d.get(k, default)\<close>\<close>

definition dict_get :: "(string \<rightharpoonup> string) \<Rightarrow> string \<Rightarrow> string \<Rightarrow> string" where
  "dict_get d k dflt = (case d k of Some v \<Rightarrow> v | None \<Rightarrow> dflt)"

text \<open>\<^verbatim>\<open>event.get('attributes', {})\<close>\<close>

definition event_attributes :: "pubsub_event \<Rightarrow> (string \<rightharpoonup> string)" where
  "event_attributes event = (case ev_attributes event of Some a \<Rightarrow> a | None \<Rightarrow> Map.empty)"

text \<open>
  Step 1 of the entry point (lines 323 to 342): the promoted image, \<open>None\<close> when
  promotion is skipped.
\<close>

definition promotion_step ::
  "nat \<Rightarrow> collab \<Rightarrow> bool \<Rightarrow> string \<Rightarrow> string \<Rightarrow> trace \<Rightarrow> string option outcome \<times> trace" where
  "promotion_step fuel env skip_promotion image_id validation_instance t =
     (if \<not> skip_promotion then
        (let timestamp = strftime_Ymd_HMS (datetime_now env t);
             promoted_image_name = image_id @ ''-promoted-'' @ timestamp
         in case create_image_from_vm fuel env validation_instance promoted_image_name
                   (PROJECT_ID env) t of
              (Returns promoted_image, t1) \<Rightarrow> (Returns (Some promoted_image), t1)
            | (Raises e, t1) \<Rightarrow> (Raises e, t1)
            | (Unfinished, t1) \<Rightarrow> (Unfinished, t1))
      else (Returns None, t))"

text \<open>
  Step 2 (lines 345 to 357). \<^verbatim>\<open>if promoted_image\<close> is false for \<^verbatim>\<open>None\<close> and for
  the empty string.
\<close>

definition cleanup_step ::
  "nat \<Rightarrow> collab \<Rightarrow> bool \<Rightarrow> string option \<Rightarrow> string \<Rightarrow> trace \<Rightarrow> unit outcome \<times> trace" where
  "cleanup_step fuel env skip_destroy promoted_image validation_instance t =
     (if \<not> skip_destroy then
        delete_vm fuel env validation_instance (PROJECT_ID env) 3
          (if promoted_image \<noteq> None \<and> promoted_image \<noteq> Some [] then t @ [Sleep 5] else t)
      else (Returns (), t))"

text \<open>
  \<^verbatim>\<open>promote_cleanup(event, context)\<close>. A bare \<^verbatim>\<open>return\<close> yields \<open>Returns None\<close>,
  the final \<^verbatim>\<open>return {...}\<close> yields \<open>Returns (Some r)\<close>. The handler around the
  whole body logs and re-raises.
\<close>

definition promote_cleanup ::
  "nat \<Rightarrow> collab \<Rightarrow> pubsub_event \<Rightarrow> trace \<Rightarrow> promote_result option outcome \<times> trace" where
  "promote_cleanup fuel env event t =
     (case (case ev_data event of
              None \<Rightarrow> Inr []
            | Some d \<Rightarrow> b64decode_utf8 env d) of
        Inl m \<Rightarrow> (Raises (DecodeError m), t)
      | Inr message_data \<Rightarrow>
     (let attributes = event_attributes event;
          image_id = dict_get attributes ''image_id'' [];
          scan_result = dict_get attributes ''scan_result'' [];
          validation_instance = dict_get attributes ''validation_instance'' [];
          skip_destroy = (lower (dict_get attributes ''skip_destroy'' ''false'') = ''true'');
          skip_promotion = (lower (dict_get attributes ''skip_promotion'' ''false'') = ''true'')
      in
        if validation_instance = [] then (Returns None, t)
        else if scan_result \<noteq> ''Pass'' then (Returns None, t)
        else
          (case promotion_step fuel env skip_promotion image_id validation_instance t of
             (Raises e, t1) \<Rightarrow> (Raises e, t1)
           | (Unfinished, t1) \<Rightarrow> (Unfinished, t1)
           | (Returns promoted_image, t1) \<Rightarrow>
               (case cleanup_step fuel env skip_destroy promoted_image validation_instance t1 of
                  (Raises e, t2) \<Rightarrow> (Raises e, t2)
                | (Unfinished, t2) \<Rightarrow> (Unfinished, t2)
                | (Returns _, t2) \<Rightarrow>
                    (Returns (Some \<lparr> res_status = ''success'',
                                     res_promoted_image = promoted_image,
                                     res_validation_instance = validation_instance,
                                     res_timestamp = isoformat (datetime_now env t2) \<rparr>), t2)))))"

section \<open>Properties\<close>

subsection \<open>Vocabulary for traces\<close>

definition is_delete :: "event \<Rightarrow> bool" where
  "is_delete ev = (case ev of InstancesDelete p z i r \<Rightarrow> True | _ \<Rightarrow> False)"

definition is_insert :: "event \<Rightarrow> bool" where
  "is_insert ev = (case ev of ImagesInsert p img r \<Rightarrow> True | _ \<Rightarrow> False)"

subsection \<open>Vocabulary for requests and errors\<close>

text \<open>
  An attribute of the event with its default, as \<^verbatim>\<open>promote_cleanup\<close> reads it; whether
  the payload is absent or decodes; and the test of the retry handler of
  \<^verbatim>\<open>delete_vm\<close> (line 271).
\<close>

definition attr :: "pubsub_event \<Rightarrow> string \<Rightarrow> string \<Rightarrow> string" where
  "attr event k dflt = dict_get (event_attributes event) k dflt"

definition payload_decodes :: "collab \<Rightarrow> pubsub_event \<Rightarrow> bool" where
  "payload_decodes env event =
     (case ev_data event of
        None \<Rightarrow> True
      | Some d \<Rightarrow> (case b64decode_utf8 env d of Inr s \<Rightarrow> True | Inl m \<Rightarrow> False))"

definition retry_not_found :: "exn \<Rightarrow> bool" where
  "retry_not_found e =
     (contains ''not found'' (lower (str e)) \<or> contains ''not_found'' (lower (str e)))"

subsection \<open>Vocabulary for the waiters\<close>

text \<open>
  Both waiters run the same loop; \<open>poll_until_done\<close> is that loop over an arbitrary
  poll \<open>ask\<close>, logged as the event \<open>ev\<close>. \<open>polls ask ev t k\<close> is the trace after
  \<open>k\<close> polls that each found the operation not yet done: every such poll is
  followed by a sleep of 2 seconds. An answer is \<open>pending\<close> when the poll returned an
  operation whose status is not \<open>DONE\<close>; \<open>settle\<close> is what the loop does with any
  other answer.
\<close>

fun polls :: "(trace \<Rightarrow> string + operation) \<Rightarrow> (string + operation \<Rightarrow> event) \<Rightarrow> trace \<Rightarrow> nat \<Rightarrow> trace" where
  "polls ask ev t 0 = t"
| "polls ask ev t (Suc k) = polls ask ev t k @ [ev (ask (polls ask ev t k)), Sleep 2]"

definition pending :: "string + operation \<Rightarrow> bool" where
  "pending r = (case r of Inr operation \<Rightarrow> op_status operation \<noteq> DONE | Inl m \<Rightarrow> False)"

definition done_ok :: "string + operation \<Rightarrow> bool" where
  "done_ok r = (case r of Inr operation \<Rightarrow> op_status operation = DONE \<and> op_error operation = None | Inl m \<Rightarrow> False)"

definition done_failed :: "string + operation \<Rightarrow> string \<Rightarrow> bool" where
  "done_failed r payload = (case r of Inr operation \<Rightarrow> op_status operation = DONE \<and> op_error operation = Some payload | Inl m \<Rightarrow> False)"

definition settle :: "string + operation \<Rightarrow> unit outcome" where
  "settle r = (case r of Inl m \<Rightarrow> Raises (ClientError m)
               | Inr operation \<Rightarrow> (case op_error operation of Some p \<Rightarrow> Raises (OperationFailed p) | None \<Rightarrow> Returns ()))"

fun poll_until_done :: "nat \<Rightarrow> (trace \<Rightarrow> string + operation) \<Rightarrow> (string + operation \<Rightarrow> event) \<Rightarrow> trace \<Rightarrow> unit outcome \<times> trace" where
  "poll_until_done 0 ask ev t = (Unfinished, t)"
| "poll_until_done (Suc fuel) ask ev t =
     (if pending (ask t) then poll_until_done fuel ask ev (t @ [ev (ask t), Sleep 2])
      else (settle (ask t), t @ [ev (ask t)]))"


definition zone_polls :: "collab \<Rightarrow> string \<Rightarrow> string \<Rightarrow> string \<Rightarrow> trace \<Rightarrow> nat \<Rightarrow> trace" where
  "zone_polls env operation_name project_id zone t k =
     polls (\<lambda>t. zone_operations_get env t project_id zone operation_name)
       (ZoneOperationsGet project_id zone operation_name) t k"

definition zone_answer ::
  "collab \<Rightarrow> string \<Rightarrow> string \<Rightarrow> string \<Rightarrow> trace \<Rightarrow> nat \<Rightarrow> string + operation" where
  "zone_answer env operation_name project_id zone t k =
     zone_operations_get env (zone_polls env operation_name project_id zone t k)
       project_id zone operation_name"

definition global_polls :: "collab \<Rightarrow> string \<Rightarrow> string \<Rightarrow> trace \<Rightarrow> nat \<Rightarrow> trace" where
  "global_polls env operation_name project_id t k =
     polls (\<lambda>t. global_operations_get env t project_id operation_name)
       (GlobalOperationsGet project_id operation_name) t k"

definition global_answer ::
  "collab \<Rightarrow> string \<Rightarrow> string \<Rightarrow> trace \<Rightarrow> nat \<Rightarrow> string + operation" where
  "global_answer env operation_name project_id t k =
     global_operations_get env (global_polls env operation_name project_id t k)
       project_id operation_name"

subsection \<open>Vocabulary for the ordering of promotion and cleanup\<close>

text \<open>
  \<open>image_created s\<close>: the trace \<open>s\<close> holds an \<^verbatim>\<open>images.insert\<close> call that answered
  with an operation, and later a poll of that operation that found it \<open>DONE\<close> without
  error. \<open>promoted_name\<close> is the image name \<^verbatim>\<open>promote_cleanup\<close> computes (lines 324
  and 325).
\<close>

definition global_done :: "string \<Rightarrow> string \<Rightarrow> trace \<Rightarrow> bool" where
  "global_done p n s =
     (\<exists>e\<in>set s. case e of
        GlobalOperationsGet p' n' (Inr op') \<Rightarrow>
          p' = p \<and> n' = n \<and> op_status op' = DONE \<and> op_error op' = None
      | _ \<Rightarrow> False)"

fun image_created :: "trace \<Rightarrow> bool" where
  "image_created [] = False"
| "image_created (e # s) =
     ((case e of ImagesInsert p img (Inr operation) \<Rightarrow> global_done p (op_name operation) s
       | _ \<Rightarrow> False) \<or> image_created s)"

definition promoted_name :: "collab \<Rightarrow> pubsub_event \<Rightarrow> trace \<Rightarrow> string" where
  "promoted_name env event t =
     attr event ''image_id'' [] @ ''-promoted-'' @ strftime_Ymd_HMS (datetime_now env t)"

subsection \<open>Vocabulary for one attempt of the reaper\<close>

text \<open>
  \<open>reaches_delete fuel env n p t t3\<close>: an attempt of \<^verbatim>\<open>delete_vm\<close> started at trace
  \<open>t\<close> finds the instance, its stabilisation returns (with either answer), and its stop
  phase (lines 200 to 213) ends at trace \<open>t3\<close>, normally or by raising any exception.
\<close>

definition reaches_delete :: "nat \<Rightarrow> collab \<Rightarrow> string \<Rightarrow> string \<Rightarrow> trace \<Rightarrow> trace \<Rightarrow> bool" where
  "reaches_delete fuel env n p t t3 =
     (case check_vm_exists env n p t of
        (Returns vm_exists, t1) \<Rightarrow>
          vm_exists \<and>
          (case wait_for_vm_stable fuel env n p 60 t1 of
             (Returns is_stable, t2) \<Rightarrow>
               (case stop_if_running fuel env n p t2 of
                  (Unfinished, t3') \<Rightarrow> False
                | (out, t3') \<Rightarrow> t3' = t3)
           | (out, t2) \<Rightarrow> False)
      | (out, t1) \<Rightarrow> False)"

subsection \<open>Collaborators used in the examples\<close>

text \<open>
  \<open>collab_of\<close> builds a collaborator from the answers of its calls: the answer of
  \<^verbatim>\<open>instances.get\<close> and of \<^verbatim>\<open>instances.delete\<close> may depend on the trace, the
  others are fixed; both operation clients give the same answer. Its clock stands still,
  and its decoder rejects the payload \<^verbatim>\<open>/w==\<close>, the base64 text of the single byte
  \<^verbatim>\<open>0xff\<close>, which is not UTF-8 (any other payload it hands back as it is: the decoded
  text is only logged).
\<close>

definition collab_of ::
  "(trace \<Rightarrow> string + vm_instance) \<Rightarrow> (string + operation) \<Rightarrow> (trace \<Rightarrow> string + operation) \<Rightarrow>
   (string + operation) \<Rightarrow> (string + operation) \<Rightarrow> datetime \<Rightarrow> collab" where
  "collab_of get_ans stop_ans delete_ans insert_ans op_ans now =
     \<lparr> instances_get = (\<lambda>t p z i. get_ans t),
       instances_stop = (\<lambda>t p z i. stop_ans),
       instances_delete = (\<lambda>t p z i. delete_ans t),
       images_insert = (\<lambda>t p img. insert_ans),
       zone_operations_get = (\<lambda>t p z n. op_ans),
       global_operations_get = (\<lambda>t p n. op_ans),
       time_time = (\<lambda>t. 0),
       datetime_now = (\<lambda>t. now),
       b64decode_utf8 = (\<lambda>d. if d = ''/w=='' then Inl ''invalid start byte'' else Inr d),
       GCP_PROJECT = None \<rparr>"

definition noon :: datetime where
  "noon = \<lparr> dt_year = 2024, dt_month = 1, dt_day = 2, dt_hour = 12, dt_minute = 0,
            dt_second = 0, dt_microsecond = 0 \<rparr>"

text \<open>Every client call raises an exception with the given text.\<close>

definition collab_raising :: "string \<Rightarrow> collab" where
  "collab_raising m = collab_of (\<lambda>t. Inl m) (Inl m) (\<lambda>t. Inl m) (Inl m) (Inl m) noon"

text \<open>
  A collaborator whose every call succeeds at once on a running instance with a boot
  disk, and one whose operations never get done.
\<close>

definition done_op :: operation where
  "done_op = \<lparr> op_name = ''op-1'', op_status = DONE, op_error = None \<rparr>"

definition running_op :: operation where
  "running_op = \<lparr> op_name = ''op-1'', op_status = OP_RUNNING, op_error = None \<rparr>"

definition running_vm :: vm_instance where
  "running_vm =
     \<lparr> inst_status = RUNNING,
       inst_disks = [\<lparr> disk_boot = False, disk_source = ''projects/sandbox/zones/us-central1-a/disks/data'' \<rparr>,
                     \<lparr> disk_boot = True, disk_source = ''projects/sandbox/zones/us-central1-a/disks/vm-1'' \<rparr>] \<rparr>"

definition collab_ok :: "datetime \<Rightarrow> collab" where
  "collab_ok now =
     collab_of (\<lambda>t. Inr running_vm) (Inr done_op) (\<lambda>t. Inr done_op) (Inr done_op) (Inr done_op) now"

definition collab_pending :: collab where
  "collab_pending =
     collab_of (\<lambda>t. Inr running_vm) (Inr done_op) (\<lambda>t. Inr done_op) (Inr done_op) (Inr running_op) noon"

text \<open>
  An instance without a boot disk; a collaborator that serves it; one whose stop call
  raises; one whose instance is there at the existence check, is reported not found at
  the next read, and whose every later call raises another error; and a second clock
  reading, half a second after \<open>noon\<close>.
\<close>

definition data_only_vm :: vm_instance where
  "data_only_vm =
     \<lparr> inst_status = TERMINATED,
       inst_disks = [\<lparr> disk_boot = False,
                       disk_source = ''projects/sandbox/zones/us-central1-a/disks/data'' \<rparr>] \<rparr>"

definition collab_no_boot :: collab where
  "collab_no_boot =
     collab_of (\<lambda>t. Inr data_only_vm) (Inr done_op) (\<lambda>t. Inr done_op) (Inr done_op) (Inr done_op) noon"

definition collab_stop_fails :: collab where
  "collab_stop_fails =
     collab_of (\<lambda>t. Inr running_vm) (Inl ''boom'') (\<lambda>t. Inr done_op) (Inr done_op) (Inr done_op) noon"

definition collab_vanishing :: collab where
  "collab_vanishing =
     collab_of (\<lambda>t. if t = [] then Inr running_vm
                     else if length t = 1 then Inl ''not found'' else Inl ''boom'')
       (Inl ''boom'') (\<lambda>t. Inl ''boom'') (Inl ''boom'') (Inl ''boom'') noon"

definition half_past_noon :: datetime where
  "half_past_noon = noon \<lparr> dt_microsecond := 500000 \<rparr>"

text \<open>
  A collaborator whose instance is there at the existence check and reported not found
  by every later call; and one whose first delete call raises another error and whose
  later delete calls report not found.
\<close>

definition collab_gone_midway :: collab where
  "collab_gone_midway =
     collab_of (\<lambda>t. if t = [] then Inr running_vm else Inl ''not found'')
       (Inl ''not found'') (\<lambda>t. Inl ''not found'') (Inl ''not found'') (Inl ''not found'') noon"

definition collab_gone_on_force :: collab where
  "collab_gone_on_force =
     collab_of (\<lambda>t. Inr running_vm) (Inr done_op)
       (\<lambda>t. if filter is_delete t = [] then Inl ''boom'' else Inl ''not found'')
       (Inr done_op) (Inr done_op) noon"

text \<open>Events used in the examples.\<close>

definition passed_scan :: pubsub_event where
  "passed_scan =
     \<lparr> ev_data = None,
       ev_attributes = Some (map_of [(''image_id'', ''rhel9''), (''scan_result'', ''Pass''),
                                     (''validation_instance'', ''vm-1'')]) \<rparr>"


definition undecodable_failed_scan :: pubsub_event where
  "undecodable_failed_scan =
     \<lparr> ev_data = Some ''/w=='',
       ev_attributes = Some (map_of [(''scan_result'', ''Fail''),
                                     (''validation_instance'', ''vm-1'')]) \<rparr>"

definition unknown_scan :: pubsub_event where
  "unknown_scan =
     \<lparr> ev_data = None,
       ev_attributes = Some (map_of [(''scan_result'', ''Unknown''),
                                     (''validation_instance'', ''vm-1'')]) \<rparr>"

definition passed_scan_without_instance :: pubsub_event where
  "passed_scan_without_instance =
     \<lparr> ev_data = None, ev_attributes = Some (map_of [(''scan_result'', ''Pass'')]) \<rparr>"

definition passed_scan_empty_instance :: pubsub_event where
  "passed_scan_empty_instance =
     \<lparr> ev_data = None,
       ev_attributes = Some (map_of [(''scan_result'', ''Pass''),
                                     (''validation_instance'', [])]) \<rparr>"

subsection \<open>The examples' collaborators, field by field\<close>

lemma collab_of_sel [simp]:
  "instances_get (collab_of g s d i opa now) = (\<lambda>t p z n. g t)"
  "instances_stop (collab_of g s d i opa now) = (\<lambda>t p z n. s)"
  "instances_delete (collab_of g s d i opa now) = (\<lambda>t p z n. d t)"
  "images_insert (collab_of g s d i opa now) = (\<lambda>t p img. i)"
  "zone_operations_get (collab_of g s d i opa now) = (\<lambda>t p z n. opa)"
  "global_operations_get (collab_of g s d i opa now) = (\<lambda>t p n. opa)"
  "time_time (collab_of g s d i opa now) = (\<lambda>t. 0)"
  "datetime_now (collab_of g s d i opa now) = (\<lambda>t. now)"
  "b64decode_utf8 (collab_of g s d i opa now) =
     (\<lambda>d. if d = ''/w=='' then Inl ''invalid start byte'' else Inr d)"
  "GCP_PROJECT (collab_of g s d i opa now) = None"
  by (simp_all add: collab_of_def)

subsection \<open>What the trace vocabulary says of each event\<close>

lemma is_delete_simps [simp]:
  "\<not> is_delete (InstancesGet p z i r1)" "\<not> is_delete (InstancesStop p z i r2)"
  "is_delete (InstancesDelete p z i r3)" "\<not> is_delete (ImagesInsert p img r4)"
  "\<not> is_delete (ZoneOperationsGet p z n r5)" "\<not> is_delete (GlobalOperationsGet p n r6)"
  "\<not> is_delete (Sleep k)"
  by (simp_all add: is_delete_def)

lemma is_insert_simps [simp]:
  "\<not> is_insert (InstancesGet p z i r1)" "\<not> is_insert (InstancesStop p z i r2)"
  "\<not> is_insert (InstancesDelete p z i r3)" "is_insert (ImagesInsert p img r4)"
  "\<not> is_insert (ZoneOperationsGet p z n r5)" "\<not> is_insert (GlobalOperationsGet p n r6)"
  "\<not> is_insert (Sleep k)"
  by (simp_all add: is_insert_def)

subsection \<open>The waiters only add polls and sleeps to the trace\<close>

lemma wait_zone_prefix':
  "prefix t t0 \<Longrightarrow> prefix t (snd (wait_for_zone_operation fuel env n p z t0))"
  by (induction fuel arbitrary: t0)
     (simp_all add: call_zone_operations_get_def split: sum.split option.split)

lemma wait_zone_prefix: "prefix t (snd (wait_for_zone_operation fuel env n p z t))"
  by (simp add: wait_zone_prefix')

lemma wait_zone_filter:
  assumes "\<And>p z n r. \<not> P (ZoneOperationsGet p z n r)" "\<And>k. \<not> P (Sleep k)"
  shows "filter P (snd (wait_for_zone_operation fuel env n p z t)) = filter P t"
  using assms
  by (induction fuel arbitrary: t)
     (simp_all add: call_zone_operations_get_def split: sum.split option.split)

lemma wait_global_prefix':
  "prefix t t0 \<Longrightarrow> prefix t (snd (wait_for_global_operation fuel env n p t0))"
  by (induction fuel arbitrary: t0)
     (simp_all add: call_global_operations_get_def split: sum.split option.split)

lemma wait_global_prefix: "prefix t (snd (wait_for_global_operation fuel env n p t))"
  by (simp add: wait_global_prefix')

lemma wait_global_filter:
  assumes "\<And>p n r. \<not> P (GlobalOperationsGet p n r)" "\<And>k. \<not> P (Sleep k)"
  shows "filter P (snd (wait_for_global_operation fuel env n p t)) = filter P t"
  using assms
  by (induction fuel arbitrary: t)
     (simp_all add: call_global_operations_get_def split: sum.split option.split)

text \<open>A global wait that returns ends with the poll that saw the operation done.\<close>

lemma wait_global_Returns:
  "wait_for_global_operation fuel env n p t = (Returns u, t') \<Longrightarrow>
   \<exists>b op'. t' = t @ b @ [GlobalOperationsGet p n (Inr op')] \<and>
           op_status op' = DONE \<and> op_error op' = None"
proof (induction fuel arbitrary: t)
  case 0
  then show ?case by simp
next
  case (Suc fuel)
  show ?case
  proof (cases "global_operations_get env t p n")
    case (Inl m)
    with Suc.prems show ?thesis by (simp add: call_global_operations_get_def)
  next
    case (Inr operation)
    show ?thesis
    proof (cases "op_status operation = DONE")
      case True
      with Inr Suc.prems
      have "t' = t @ [] @ [GlobalOperationsGet p n (Inr operation)] \<and> op_error operation = None"
        by (auto simp: call_global_operations_get_def split: option.splits)
      with True show ?thesis by blast
    next
      case False
      let ?t1 = "t @ [GlobalOperationsGet p n (Inr operation), Sleep 2]"
      from False Inr Suc.prems
      have "wait_for_global_operation fuel env n p ?t1 = (Returns u, t')"
        by (simp add: call_global_operations_get_def)
      from Suc.IH [OF this] obtain b op' where
        "t' = ?t1 @ b @ [GlobalOperationsGet p n (Inr op')]"
        "op_status op' = DONE" "op_error op' = None"
        by blast
      then have "t' = t @ ([GlobalOperationsGet p n (Inr operation), Sleep 2] @ b) @
                    [GlobalOperationsGet p n (Inr op')]"
        by simp
      with \<open>op_status op' = DONE\<close> \<open>op_error op' = None\<close> show ?thesis by blast
    qed
  qed
qed

subsection \<open>Facts about the examples\<close>

lemma lower_boom [simp]: "lower ''boom'' = ''boom''"
  by (simp add: lower_def lower_char_def)

lemma attempt_raising:
  "delete_vm_attempt fuel (collab_raising ''boom'') n p t =
     (Raises (ClientError ''boom''), t @ [InstancesGet p ZONE n (Inl ''boom'')])"
  by (simp add: delete_vm_attempt_def check_vm_exists_def call_instances_get_def collab_raising_def)

subsection \<open>The loop of the waiters\<close>

lemma zone_is_poll:
  "wait_for_zone_operation fuel env n p z t =
     poll_until_done fuel (\<lambda>t. zone_operations_get env t p z n) (ZoneOperationsGet p z n) t"
  by (induction fuel arbitrary: t)
     (auto simp: call_zone_operations_get_def pending_def settle_def split: sum.splits option.splits)

lemma global_is_poll:
  "wait_for_global_operation fuel env n p t =
     poll_until_done fuel (\<lambda>t. global_operations_get env t p n) (GlobalOperationsGet p n) t"
  by (induction fuel arbitrary: t)
     (auto simp: call_global_operations_get_def pending_def settle_def split: sum.splits option.splits)

lemma polls_shift: "polls ask ev t (Suc k) = polls ask ev (t @ [ev (ask t), Sleep 2]) k"
  by (induction k) simp_all

lemma poll_all_pending:
  "(\<forall>k<fuel. pending (ask (polls ask ev t k))) \<Longrightarrow>
   poll_until_done fuel ask ev t = (Unfinished, polls ask ev t fuel)"
proof (induction fuel arbitrary: t)
  case 0
  show ?case by simp
next
  case (Suc fuel)
  from Suc.prems have p0: "pending (ask t)" by force
  have "\<forall>k<fuel. pending (ask (polls ask ev (t @ [ev (ask t), Sleep 2]) k))"
  proof (intro allI impI)
    fix k assume "k < fuel"
    with Suc.prems have "pending (ask (polls ask ev t (Suc k)))" by blast
    then show "pending (ask (polls ask ev (t @ [ev (ask t), Sleep 2]) k))"
      by (simp only: polls_shift)
  qed
  from Suc.IH [OF this] p0 show ?case
    by (simp only: poll_until_done.simps polls_shift if_True)
qed

lemma poll_first_settled:
  "k < fuel \<Longrightarrow> (\<forall>j<k. pending (ask (polls ask ev t j))) \<Longrightarrow> \<not> pending (ask (polls ask ev t k)) \<Longrightarrow>
   poll_until_done fuel ask ev t =
     (settle (ask (polls ask ev t k)), polls ask ev t k @ [ev (ask (polls ask ev t k))])"
proof (induction fuel arbitrary: t k)
  case 0
  then show ?case by simp
next
  case (Suc fuel)
  show ?case
  proof (cases k)
    case 0
    with Suc.prems show ?thesis by simp
  next
    case (Suc k')
    with Suc.prems have p0: "pending (ask t)" by force
    let ?t1 = "t @ [ev (ask t), Sleep 2]"
    have a: "k' < fuel" using Suc Suc.prems by simp
    have b: "\<forall>j<k'. pending (ask (polls ask ev ?t1 j))"
    proof (intro allI impI)
      fix j assume "j < k'"
      then have "Suc j < k" using Suc by simp
      with Suc.prems have "pending (ask (polls ask ev t (Suc j)))" by blast
      then show "pending (ask (polls ask ev ?t1 j))" by (simp only: polls_shift)
    qed
    have c: "\<not> pending (ask (polls ask ev ?t1 k'))"
      using Suc.prems(3) unfolding Suc polls_shift .
    from Suc.IH [OF a b c] p0 show ?thesis
      unfolding Suc by (simp only: poll_until_done.simps polls_shift if_True)
  qed
qed

lemma poll_cases:
  "(poll_until_done fuel ask ev t = (Unfinished, polls ask ev t fuel) \<and>
      (\<forall>k<fuel. pending (ask (polls ask ev t k)))) \<or>
   (\<exists>k<fuel. (\<forall>j<k. pending (ask (polls ask ev t j))) \<and> \<not> pending (ask (polls ask ev t k)) \<and>
      poll_until_done fuel ask ev t =
        (settle (ask (polls ask ev t k)), polls ask ev t k @ [ev (ask (polls ask ev t k))]))"
proof (cases "\<forall>k<fuel. pending (ask (polls ask ev t k))")
  case True
  then show ?thesis using poll_all_pending by blast
next
  case False
  then obtain k0 where k0: "k0 < fuel" "\<not> pending (ask (polls ask ev t k0))" by blast
  define Q where "Q k \<longleftrightarrow> k < fuel \<and> \<not> pending (ask (polls ask ev t k))" for k
  have "Q k0" using k0 by (simp add: Q_def)
  then obtain k where k: "Q k" "\<forall>j<k. \<not> Q j"
    using exists_least_iff [of Q] by blast
  then have "k < fuel" "\<not> pending (ask (polls ask ev t k))" by (simp_all add: Q_def)
  moreover have "\<forall>j<k. pending (ask (polls ask ev t j))"
    using k \<open>k < fuel\<close> by (auto simp: Q_def)
  ultimately show ?thesis using poll_first_settled [of k fuel ask ev t] by blast
qed

lemma settle_Returns: "\<not> pending r \<Longrightarrow> settle r = Returns () \<longleftrightarrow> done_ok r"
  by (auto simp: pending_def settle_def done_ok_def split: sum.splits option.splits)

lemma settle_Failed: "\<not> pending r \<Longrightarrow> settle r = Raises (OperationFailed pl) \<longleftrightarrow> done_failed r pl"
  by (auto simp: pending_def settle_def done_failed_def split: sum.splits option.splits)

lemma done_not_pending: "done_ok r \<Longrightarrow> \<not> pending r" "done_failed r pl \<Longrightarrow> \<not> pending r"
  by (auto simp: pending_def done_ok_def done_failed_def split: sum.splits)

lemma poll_Returns_iff:
  "(\<exists>fuel. fst (poll_until_done fuel ask ev t) = Returns ()) \<longleftrightarrow>
   (\<exists>k. (\<forall>j<k. pending (ask (polls ask ev t j))) \<and> done_ok (ask (polls ask ev t k)))"
proof
  assume "\<exists>fuel. fst (poll_until_done fuel ask ev t) = Returns ()"
  then obtain fuel where r: "fst (poll_until_done fuel ask ev t) = Returns ()" by blast
  from poll_cases [of fuel ask ev t] r
  obtain k where "\<forall>j<k. pending (ask (polls ask ev t j))" "\<not> pending (ask (polls ask ev t k))"
    "settle (ask (polls ask ev t k)) = Returns ()"
    by auto
  then show "\<exists>k. (\<forall>j<k. pending (ask (polls ask ev t j))) \<and> done_ok (ask (polls ask ev t k))"
    using settle_Returns by blast
next
  assume "\<exists>k. (\<forall>j<k. pending (ask (polls ask ev t j))) \<and> done_ok (ask (polls ask ev t k))"
  then obtain k where k: "\<forall>j<k. pending (ask (polls ask ev t j))" "done_ok (ask (polls ask ev t k))"
    by blast
  then have np: "\<not> pending (ask (polls ask ev t k))" by (simp add: done_not_pending)
  from poll_first_settled [of k "Suc k" ask ev t] k np
  have "fst (poll_until_done (Suc k) ask ev t) = settle (ask (polls ask ev t k))" by simp
  with settle_Returns [OF np] k show "\<exists>fuel. fst (poll_until_done fuel ask ev t) = Returns ()"
    by metis
qed

lemma poll_Failed_iff:
  "(\<exists>fuel. fst (poll_until_done fuel ask ev t) = Raises (OperationFailed pl)) \<longleftrightarrow>
   (\<exists>k. (\<forall>j<k. pending (ask (polls ask ev t j))) \<and> done_failed (ask (polls ask ev t k)) pl)"
proof
  assume "\<exists>fuel. fst (poll_until_done fuel ask ev t) = Raises (OperationFailed pl)"
  then obtain fuel where r: "fst (poll_until_done fuel ask ev t) = Raises (OperationFailed pl)" by blast
  from poll_cases [of fuel ask ev t] r
  obtain k where "\<forall>j<k. pending (ask (polls ask ev t j))" "\<not> pending (ask (polls ask ev t k))"
    "settle (ask (polls ask ev t k)) = Raises (OperationFailed pl)"
    by auto
  then show "\<exists>k. (\<forall>j<k. pending (ask (polls ask ev t j))) \<and> done_failed (ask (polls ask ev t k)) pl"
    using settle_Failed by blast
next
  assume "\<exists>k. (\<forall>j<k. pending (ask (polls ask ev t j))) \<and> done_failed (ask (polls ask ev t k)) pl"
  then obtain k where k: "\<forall>j<k. pending (ask (polls ask ev t j))" "done_failed (ask (polls ask ev t k)) pl"
    by blast
  then have np: "\<not> pending (ask (polls ask ev t k))" by (simp add: done_not_pending)
  from poll_first_settled [of k "Suc k" ask ev t] k np
  have "fst (poll_until_done (Suc k) ask ev t) = settle (ask (polls ask ev t k))" by simp
  with settle_Failed [OF np] k show "\<exists>fuel. fst (poll_until_done fuel ask ev t) = Raises (OperationFailed pl)"
    by metis
qed


subsection \<open>What each function adds to the trace\<close>

lemma wait_zone_addsD:
  assumes "wait_for_zone_operation fuel env n p z t = (r, t')"
  shows "\<exists>s. t' = t @ s \<and> filter is_delete s = [] \<and> filter is_insert s = []"
proof -
  from wait_zone_prefix [of t fuel env n p z] assms obtain s where s: "t' = t @ s"
    by (auto simp: prefix_def)
  from wait_zone_filter [of is_delete fuel env n p z t] assms s
  have "filter is_delete s = []" by simp
  moreover from wait_zone_filter [of is_insert fuel env n p z t] assms s
  have "filter is_insert s = []" by simp
  ultimately show ?thesis using s by blast
qed

lemma wait_global_addsD:
  assumes "wait_for_global_operation fuel env n p t = (r, t')"
  shows "\<exists>s. t' = t @ s \<and> filter is_delete s = [] \<and> filter is_insert s = []"
proof -
  from wait_global_prefix [of t fuel env n p] assms obtain s where s: "t' = t @ s"
    by (auto simp: prefix_def)
  from wait_global_filter [of is_delete fuel env n p t] assms s
  have "filter is_delete s = []" by simp
  moreover from wait_global_filter [of is_insert fuel env n p t] assms s
  have "filter is_insert s = []" by simp
  ultimately show ?thesis using s by blast
qed

lemma create_image_addsD:
  "create_image_from_vm fuel env n image_name p t = (r, t') \<Longrightarrow>
   \<exists>s. t' = t @ s \<and> s \<noteq> [] \<and> filter is_delete s = []"
  by (auto simp: create_image_from_vm_def call_instances_stop_def call_instances_get_def
        call_images_insert_def
      split: sum.splits outcome.splits option.splits if_splits prod.splits
      dest!: wait_zone_addsD wait_global_addsD)

lemma create_image_Returns:
  assumes "create_image_from_vm fuel env n image_name p t = (Returns img, t')"
  shows "img = image_name \<and>
         (\<exists>a b src operation op'.
            t' = t @ a @ ImagesInsert p (promoted_image_resource n image_name src) (Inr operation) #
                   b @ [GlobalOperationsGet p (op_name operation) (Inr op'), Sleep 30] \<and>
            op_status op' = DONE \<and> op_error op' = None)"
proof -
  from assms have "\<exists>op1 t2 inst src op2 t5.
      instances_stop env t p ZONE n = Inr op1 \<and>
      wait_for_zone_operation fuel env (op_name op1) p ZONE
               (t @ [InstancesStop p ZONE n (Inr op1)]) = (Returns (), t2) \<and>
      instances_get env t2 p ZONE n = Inr inst \<and>
      images_insert env (t2 @ [InstancesGet p ZONE n (Inr inst)]) p
                (promoted_image_resource n image_name src) = Inr op2 \<and>
      wait_for_global_operation fuel env (op_name op2) p
               (t2 @ [InstancesGet p ZONE n (Inr inst),
                      ImagesInsert p (promoted_image_resource n image_name src) (Inr op2)]) = (Returns (), t5) \<and>
      t' = t5 @ [Sleep 30] \<and> img = image_name"
    by (simp add: create_image_from_vm_def call_instances_stop_def call_instances_get_def
          call_images_insert_def
        split: sum.splits outcome.splits option.splits if_splits prod.splits) blast
  then obtain op1 t2 inst src op2 t5 where
    stop: "instances_stop env t p ZONE n = Inr op1"
    and w1: "wait_for_zone_operation fuel env (op_name op1) p ZONE
               (t @ [InstancesStop p ZONE n (Inr op1)]) = (Returns (), t2)"
    and get: "instances_get env t2 p ZONE n = Inr inst"
    and ins: "images_insert env (t2 @ [InstancesGet p ZONE n (Inr inst)]) p
                (promoted_image_resource n image_name src) = Inr op2"
    and w2: "wait_for_global_operation fuel env (op_name op2) p
               (t2 @ [InstancesGet p ZONE n (Inr inst),
                      ImagesInsert p (promoted_image_resource n image_name src) (Inr op2)]) = (Returns (), t5)"
    and fin: "t' = t5 @ [Sleep 30]" "img = image_name"
    by blast
  from wait_zone_addsD [OF w1] obtain s where s: "t2 = t @ [InstancesStop p ZONE n (Inr op1)] @ s"
    by auto
  from wait_global_Returns [OF w2] obtain b op' where
    b: "t5 = (t2 @ [InstancesGet p ZONE n (Inr inst),
                   ImagesInsert p (promoted_image_resource n image_name src) (Inr op2)]) @ b @
              [GlobalOperationsGet p (op_name op2) (Inr op')]"
       "op_status op' = DONE" "op_error op' = None"
    by blast
  have "t' = t @ ([InstancesStop p ZONE n (Inr op1)] @ s @ [InstancesGet p ZONE n (Inr inst)]) @
               ImagesInsert p (promoted_image_resource n image_name src) (Inr op2) #
               b @ [GlobalOperationsGet p (op_name op2) (Inr op'), Sleep 30]"
    using fin s b by simp
  with b(2,3) fin(2) show ?thesis by blast
qed


lemma check_vm_exists_adds:
  "check_vm_exists env n p t = (r, t') \<Longrightarrow>
   t' = t @ [InstancesGet p ZONE n (instances_get env t p ZONE n)]"
  by (auto simp: check_vm_exists_def call_instances_get_def split: sum.splits if_splits)

lemma wait_stable_loop_addsD:
  "wait_for_vm_stable_loop fuel env n p m st t = (r, t') \<Longrightarrow>
   \<exists>s. t' = t @ s \<and> filter is_delete s = [] \<and> filter is_insert s = []"
proof (induction fuel arbitrary: t)
  case 0
  then show ?case by (auto split: if_splits)
next
  case (Suc fuel)
  show ?case
  proof (cases "time_time env t - st < real_of_int m")
    case False
    with Suc.prems show ?thesis by simp
  next
    case True
    show ?thesis
    proof (cases "instances_get env t p ZONE n")
      case (Inl msg)
      with True Suc.prems show ?thesis
        by (auto simp: call_instances_get_def split: if_splits)
    next
      case (Inr inst)
      show ?thesis
      proof (cases "inst_status inst \<in> {TERMINATED, STOPPED, RUNNING}")
        case True
        with \<open>time_time env t - st < real_of_int m\<close> Inr Suc.prems show ?thesis
          by (auto simp: call_instances_get_def)
      next
        case False
        with \<open>time_time env t - st < real_of_int m\<close> Inr Suc.prems
        have "wait_for_vm_stable_loop fuel env n p m st
                (t @ [InstancesGet p ZONE n (Inr inst), Sleep 5]) = (r, t')"
          by (simp add: call_instances_get_def)
        from Suc.IH [OF this] show ?thesis by auto
      qed
    qed
  qed
qed

lemma wait_stable_addsD:
  "wait_for_vm_stable fuel env n p m t = (r, t') \<Longrightarrow>
   \<exists>s. t' = t @ s \<and> filter is_delete s = [] \<and> filter is_insert s = []"
  unfolding wait_for_vm_stable_def by (rule wait_stable_loop_addsD)

lemma stop_if_running_addsD:
  "stop_if_running fuel env n p t = (r, t') \<Longrightarrow>
   \<exists>s. t' = t @ s \<and> filter is_delete s = [] \<and> filter is_insert s = []"
  by (auto simp: stop_if_running_def call_instances_get_def call_instances_stop_def
      split: sum.splits if_splits dest!: wait_zone_addsD)

lemma try_stop_addsD:
  "try_stop fuel env n p t = (r, t') \<Longrightarrow>
   \<exists>s. t' = t @ s \<and> filter is_delete s = [] \<and> filter is_insert s = []"
  by (auto simp: try_stop_def split: prod.splits outcome.splits dest!: stop_if_running_addsD)

lemma try_stop_never_raises: "fst (try_stop fuel env n p t) \<noteq> Raises e"
  by (simp add: try_stop_def split: prod.splits outcome.splits)

lemma force_stop_addsD:
  "force_stop fuel env n p t = (r, t') \<Longrightarrow> \<exists>s. t' = t @ s \<and> filter is_insert s = []"
  by (auto simp: force_stop_def call_instances_get_def call_instances_stop_def
      split: sum.splits if_splits prod.splits outcome.splits dest!: wait_zone_addsD)

lemma force_stop_never_raises: "fst (force_stop fuel env n p t) \<noteq> Raises e"
  by (simp add: force_stop_def call_instances_get_def call_instances_stop_def
      split: sum.splits prod.splits outcome.splits)

lemma delete_and_wait_addsD:
  "delete_and_wait fuel env n p t = (r, t') \<Longrightarrow>
   \<exists>s. t' = t @ InstancesDelete p ZONE n (instances_delete env t p ZONE n) # s \<and>
       filter is_insert s = []"
  by (auto simp: delete_and_wait_def call_instances_delete_def
      split: sum.splits prod.splits outcome.splits dest!: wait_zone_addsD)

lemma force_delete_addsD:
  "force_delete fuel env n p t = (r, t') \<Longrightarrow> \<exists>s. t' = t @ s \<and> filter is_insert s = []"
  by (auto simp: force_delete_def
      split: prod.splits outcome.splits if_splits dest!: force_stop_addsD delete_and_wait_addsD)

lemma try_delete_addsD:
  "try_delete fuel env n p t = (r, t') \<Longrightarrow>
   \<exists>s. t' = t @ InstancesDelete p ZONE n (instances_delete env t p ZONE n) # s \<and>
       filter is_insert s = []"
  by (auto simp: try_delete_def
      split: prod.splits outcome.splits if_splits dest!: force_delete_addsD delete_and_wait_addsD)

lemma delete_vm_attempt_addsD:
  "delete_vm_attempt fuel env n p t = (r, t') \<Longrightarrow>
   \<exists>s. t' = t @ InstancesGet p ZONE n (instances_get env t p ZONE n) # s \<and>
       filter is_insert s = []"
  by (auto simp: delete_vm_attempt_def
      split: prod.splits outcome.splits if_splits
      dest!: check_vm_exists_adds wait_stable_addsD try_stop_addsD try_delete_addsD)

lemma delete_vm_from_addsD:
  "delete_vm_from fuel env n p m a t = (r, t') \<Longrightarrow> \<exists>s. t' = t @ s \<and> filter is_insert s = []"
proof (induction fuel env n p m a t rule: delete_vm_from.induct)
  case (1 fuel env n p m a t)
  show ?case
  proof (cases "m < a")
    case True
    with "1.prems" show ?thesis by (simp add: delete_vm_from.simps)
  next
    case False
    obtain r1 t1 where att: "delete_vm_attempt fuel env n p t = (r1, t1)"
      by (cases "delete_vm_attempt fuel env n p t")
    from delete_vm_attempt_addsD [OF att] obtain s1 where
      s1: "t1 = t @ InstancesGet p ZONE n (instances_get env t p ZONE n) # s1"
          "filter is_insert s1 = []"
      by blast
    show ?thesis
    proof (cases "\<exists>e. r1 = Raises e \<and> \<not> retry_not_found e \<and> a < m")
      case True
      then obtain e where e: "r1 = Raises e" "\<not> retry_not_found e" "a < m" by blast
      with False att "1.prems"
      have "delete_vm_from fuel env n p m (a + 1) (t1 @ [Sleep (a * 5)]) = (r, t')"
        by (subst (asm) delete_vm_from.simps) (simp add: retry_not_found_def)
      moreover from e False att
      have "\<exists>s. t' = (t1 @ [Sleep (a * 5)]) @ s \<and> filter is_insert s = []"
        if "delete_vm_from fuel env n p m (a + 1) (t1 @ [Sleep (a * 5)]) = (r, t')"
        using "1.IH" that by (auto simp: retry_not_found_def)
      ultimately obtain s where "t' = (t1 @ [Sleep (a * 5)]) @ s" "filter is_insert s = []"
        by blast
      with s1 show ?thesis by simp
    next
      case no_retry: False
      with False att "1.prems" have "t' = t1"
        by (subst (asm) delete_vm_from.simps)
           (auto simp: retry_not_found_def split: outcome.splits if_splits)
      with s1 show ?thesis by simp
    qed
  qed
qed

lemma delete_vm_addsD:
  "delete_vm fuel env n p m t = (r, t') \<Longrightarrow> \<exists>s. t' = t @ s \<and> filter is_insert s = []"
  unfolding delete_vm_def by (rule delete_vm_from_addsD)

subsection \<open>Promotion, then cleanup\<close>

lemma image_created_append_left: "image_created s \<Longrightarrow> image_created (a @ s)"
  by (induction a) simp_all

lemma global_done_append: "global_done p n s \<Longrightarrow> global_done p n (s @ x)"
  by (auto simp: global_done_def)

lemma image_created_append_right: "image_created s \<Longrightarrow> image_created (s @ x)"
  by (induction s) (auto simp: global_done_append split: event.splits sum.splits)

lemma image_created_intro:
  "op_status op' = DONE \<Longrightarrow> op_error op' = None \<Longrightarrow>
   image_created (a @ ImagesInsert p img (Inr operation) #
                    b @ GlobalOperationsGet p (op_name operation) (Inr op') # c)"
  by (rule image_created_append_left) (auto simp: global_done_def)

lemma promote_cleanup_both_stages:
  assumes "attr event ''validation_instance'' [] \<noteq> []"
    and "attr event ''scan_result'' [] = ''Pass''"
    and "lower (attr event ''skip_promotion'' ''false'') \<noteq> ''true''"
    and "lower (attr event ''skip_destroy'' ''false'') \<noteq> ''true''"
    and "payload_decodes env event"
  shows "promote_cleanup fuel env event t =
     (case create_image_from_vm fuel env (attr event ''validation_instance'' [])
             (promoted_name env event t) (PROJECT_ID env) t of
        (Raises e, t1) \<Rightarrow> (Raises e, t1)
      | (Unfinished, t1) \<Rightarrow> (Unfinished, t1)
      | (Returns img, t1) \<Rightarrow>
          (case delete_vm fuel env (attr event ''validation_instance'' []) (PROJECT_ID env) 3
                  (if img \<noteq> [] then t1 @ [Sleep 5] else t1) of
             (Raises e, t2) \<Rightarrow> (Raises e, t2)
           | (Unfinished, t2) \<Rightarrow> (Unfinished, t2)
           | (Returns u, t2) \<Rightarrow>
               (Returns (Some \<lparr> res_status = ''success'', res_promoted_image = Some img,
                   res_validation_instance = attr event ''validation_instance'' [],
                   res_timestamp = isoformat (datetime_now env t2) \<rparr>), t2)))"
  using assms
  by (simp add: promote_cleanup_def promotion_step_def cleanup_step_def attr_def Let_def
        payload_decodes_def promoted_name_def
      split: option.splits sum.splits prod.splits outcome.splits)


lemma split_after_marker:
  assumes "pre @ d # post = s1 @ x # s2" "d \<notin> set s1" "d \<noteq> x"
  shows "\<exists>us. pre = s1 @ x # us"
proof -
  from assms(1) obtain us where
    "(pre = s1 @ us \<and> us @ d # post = x # s2) \<or> (pre @ us = s1 \<and> d # post = us @ x # s2)"
    by (auto simp: append_eq_append_conv2)
  then show ?thesis
  proof
    assume a: "pre = s1 @ us \<and> us @ d # post = x # s2"
    show ?thesis
    proof (cases us)
      case Nil
      with a assms(3) show ?thesis by simp
    next
      case (Cons u us')
      with a show ?thesis by simp
    qed
  next
    assume a: "pre @ us = s1 \<and> d # post = us @ x # s2"
    show ?thesis
    proof (cases us)
      case Nil
      with a assms(3) show ?thesis by simp
    next
      case (Cons u us')
      with a have "d \<in> set s1" by auto
      with assms(2) show ?thesis by simp
    qed
  qed
qed

lemma no_delete_in:
  assumes "filter is_delete s = []" "s = pre @ d # post" "is_delete d"
  shows False
  using assms by auto

lemma lower_false [simp]: "lower ''false'' = ''false''"
  by (simp add: lower_def lower_char_def)

lemma passed_scan_attrs:
  "attr passed_scan ''validation_instance'' [] = ''vm-1''"
  "attr passed_scan ''scan_result'' [] = ''Pass''"
  "attr passed_scan ''image_id'' [] = ''rhel9''"
  "attr passed_scan ''skip_promotion'' ''false'' = ''false''"
  "attr passed_scan ''skip_destroy'' ''false'' = ''false''"
  "payload_decodes env passed_scan"
  by (simp_all add: attr_def event_attributes_def passed_scan_def dict_get_def payload_decodes_def)

subsection \<open>A run in which every call succeeds\<close>

lemma ok_promotion:
  "create_image_from_vm (Suc 0) (collab_ok now) ''vm-1'' nm p t =
     (Returns nm,
      t @ [InstancesStop p ZONE ''vm-1'' (Inr done_op),
           ZoneOperationsGet p ZONE ''op-1'' (Inr done_op),
           InstancesGet p ZONE ''vm-1'' (Inr running_vm),
           ImagesInsert p (promoted_image_resource ''vm-1'' nm
             ''projects/sandbox/zones/us-central1-a/disks/vm-1'') (Inr done_op),
           GlobalOperationsGet p ''op-1'' (Inr done_op),
           Sleep 30])"
  by (simp add: create_image_from_vm_def call_instances_stop_def call_instances_get_def
        call_images_insert_def call_zone_operations_get_def call_global_operations_get_def
        collab_ok_def done_op_def running_vm_def)

lemma ok_deletion:
  "delete_vm (Suc 0) (collab_ok now) ''vm-1'' p 3 t =
     (Returns (),
      t @ [InstancesGet p ZONE ''vm-1'' (Inr running_vm),
           InstancesGet p ZONE ''vm-1'' (Inr running_vm),
           InstancesGet p ZONE ''vm-1'' (Inr running_vm),
           InstancesStop p ZONE ''vm-1'' (Inr done_op),
           ZoneOperationsGet p ZONE ''op-1'' (Inr done_op),
           InstancesDelete p ZONE ''vm-1'' (Inr done_op),
           ZoneOperationsGet p ZONE ''op-1'' (Inr done_op),
           Sleep 10])"
  by (simp add: delete_vm_def delete_vm_from.simps delete_vm_attempt_def check_vm_exists_def
        wait_for_vm_stable_def try_stop_def stop_if_running_def try_delete_def delete_and_wait_def
        call_instances_stop_def call_instances_get_def call_instances_delete_def
        call_zone_operations_get_def
        collab_ok_def done_op_def running_vm_def)

lemma collab_ok_env:
  "PROJECT_ID (collab_ok now) = ''sandbox-dev-478813''"
  "datetime_now (collab_ok now) t = now"
  by (simp_all add: PROJECT_ID_def collab_ok_def)

lemma strftime_noon: "strftime_Ymd_HMS noon = ''20240102-120000''"
  by (simp add: strftime_Ymd_HMS_def noon_def zero_pad2_def zero_pad4_def digit_char_def)

lemma ok_invocation:
  "snd (promote_cleanup (Suc 0) (collab_ok noon) passed_scan []) =
     [InstancesStop ''sandbox-dev-478813'' ZONE ''vm-1'' (Inr done_op),
      ZoneOperationsGet ''sandbox-dev-478813'' ZONE ''op-1'' (Inr done_op),
      InstancesGet ''sandbox-dev-478813'' ZONE ''vm-1'' (Inr running_vm),
      ImagesInsert ''sandbox-dev-478813'' (promoted_image_resource ''vm-1''
          ''rhel9-promoted-20240102-120000''
          ''projects/sandbox/zones/us-central1-a/disks/vm-1'') (Inr done_op),
      GlobalOperationsGet ''sandbox-dev-478813'' ''op-1'' (Inr done_op),
      Sleep 30, Sleep 5,
      InstancesGet ''sandbox-dev-478813'' ZONE ''vm-1'' (Inr running_vm),
      InstancesGet ''sandbox-dev-478813'' ZONE ''vm-1'' (Inr running_vm),
      InstancesGet ''sandbox-dev-478813'' ZONE ''vm-1'' (Inr running_vm),
      InstancesStop ''sandbox-dev-478813'' ZONE ''vm-1'' (Inr done_op),
      ZoneOperationsGet ''sandbox-dev-478813'' ZONE ''op-1'' (Inr done_op)] @
     InstancesDelete ''sandbox-dev-478813'' ZONE ''vm-1'' (Inr done_op) #
     [ZoneOperationsGet ''sandbox-dev-478813'' ZONE ''op-1'' (Inr done_op), Sleep 10]"
  by (simp add: promote_cleanup_both_stages passed_scan_attrs promoted_name_def ok_promotion
        ok_deletion collab_ok_env strftime_noon)


subsection \<open>Boot disk, stop phase, image name, not-found errors\<close>

lemma boot_none: "(\<forall>d\<in>set ds. \<not> disk_boot d) \<Longrightarrow> boot_disk_source_of ds = None"
  by (induction ds) simp_all

lemma boot_first:
  "(\<forall>x\<in>set ds1. \<not> disk_boot x) \<Longrightarrow> disk_boot d \<Longrightarrow>
   boot_disk_source_of (ds1 @ d # ds2) = Some (disk_source d)"
  by (induction ds1) simp_all

lemma no_boot_promotion:
  "create_image_from_vm (Suc 0) collab_no_boot ''vm-1'' nm p t =
     (Raises (NoBootDisk ''vm-1''),
      t @ [InstancesStop p ZONE ''vm-1'' (Inr done_op),
           ZoneOperationsGet p ZONE ''op-1'' (Inr done_op),
           InstancesGet p ZONE ''vm-1'' (Inr data_only_vm)])"
  by (simp add: create_image_from_vm_def call_instances_stop_def call_instances_get_def
        call_zone_operations_get_def collab_no_boot_def done_op_def data_only_vm_def)

lemma attempt_after_stop:
  assumes "check_vm_exists env n p t = (Returns True, t1)"
    and "wait_for_vm_stable fuel env n p 60 t1 = (Returns b, t2)"
    and "try_stop fuel env n p t2 = (Returns (), t3)"
  shows "delete_vm_attempt fuel env n p t = try_delete fuel env n p t3"
  using assms by (simp add: delete_vm_attempt_def)

lemma stop_fails_facts:
  "check_vm_exists collab_stop_fails ''vm-1'' p [] =
     (Returns True, [InstancesGet p ZONE ''vm-1'' (Inr running_vm)])"
  "wait_for_vm_stable (Suc 0) collab_stop_fails ''vm-1'' p 60
       [InstancesGet p ZONE ''vm-1'' (Inr running_vm)] =
     (Returns True, [InstancesGet p ZONE ''vm-1'' (Inr running_vm),
                     InstancesGet p ZONE ''vm-1'' (Inr running_vm)])"
  "stop_if_running (Suc 0) collab_stop_fails ''vm-1'' p
       [InstancesGet p ZONE ''vm-1'' (Inr running_vm),
        InstancesGet p ZONE ''vm-1'' (Inr running_vm)] =
     (Raises (ClientError ''boom''),
      [InstancesGet p ZONE ''vm-1'' (Inr running_vm),
       InstancesGet p ZONE ''vm-1'' (Inr running_vm),
       InstancesGet p ZONE ''vm-1'' (Inr running_vm),
       InstancesStop p ZONE ''vm-1'' (Inl ''boom'')])"
  by (simp_all add: check_vm_exists_def wait_for_vm_stable_def stop_if_running_def
        call_instances_get_def call_instances_stop_def collab_stop_fails_def running_vm_def)

lemma promote_cleanup_result_image:
  assumes "attr event ''validation_instance'' [] \<noteq> []"
    and "attr event ''scan_result'' [] = ''Pass''"
    and "lower (attr event ''skip_promotion'' ''false'') \<noteq> ''true''"
    and "promote_cleanup fuel env event t = (Returns (Some r), t')"
  shows "res_promoted_image r =
           Some (attr event ''image_id'' [] @ ''-promoted-'' @ strftime_Ymd_HMS (datetime_now env t))"
proof -
  let ?vi = "attr event ''validation_instance'' []"
  let ?name = "attr event ''image_id'' [] @ ''-promoted-'' @ strftime_Ymd_HMS (datetime_now env t)"
  obtain out1 t1 where c: "create_image_from_vm fuel env ?vi ?name (PROJECT_ID env) t = (out1, t1)"
    by (cases "create_image_from_vm fuel env ?vi ?name (PROJECT_ID env) t")
  show ?thesis
  proof (cases out1)
    case (Returns img)
    with create_image_Returns c have img: "img = ?name" by blast
    from assms c Returns have "res_promoted_image r = Some img"
      by (auto simp: promote_cleanup_def promotion_step_def attr_def Let_def
          split: option.splits sum.splits prod.splits outcome.splits)
    with img show ?thesis by simp
  next
    case (Raises e)
    with assms c show ?thesis
      by (simp add: promote_cleanup_def promotion_step_def attr_def Let_def
          split: option.splits sum.splits)
  next
    case Unfinished
    with assms c show ?thesis
      by (simp add: promote_cleanup_def promotion_step_def attr_def Let_def
          split: option.splits sum.splits)
  qed
qed

lemma ok_result:
  "fst (promote_cleanup (Suc 0) (collab_ok now) passed_scan []) =
     Returns (Some \<lparr> res_status = ''success'',
                     res_promoted_image = Some (''rhel9-promoted-'' @ strftime_Ymd_HMS now),
                     res_validation_instance = ''vm-1'',
                     res_timestamp = isoformat now \<rparr>)"
  by (simp add: promote_cleanup_both_stages passed_scan_attrs promoted_name_def ok_promotion
        ok_deletion collab_ok_env)

lemma strftime_half_past_noon: "strftime_Ymd_HMS half_past_noon = ''20240102-120000''"
  by (simp add: strftime_Ymd_HMS_def half_past_noon_def noon_def zero_pad2_def zero_pad4_def
        digit_char_def)

lemma isoformats:
  "isoformat noon = ''2024-01-02T12:00:00''"
  "isoformat half_past_noon = ''2024-01-02T12:00:00.500000''"
  by (simp_all add: isoformat_def half_past_noon_def noon_def zero_pad2_def zero_pad4_def
        zero_pad6_def digit_char_def)

lemma check_not_found:
  "instances_get env t p ZONE n = Inl m \<Longrightarrow>
   contains ''not found'' (lower m) \<or> contains ''NOT_FOUND'' m \<Longrightarrow>
   check_vm_exists env n p t = (Returns False, t @ [InstancesGet p ZONE n (Inl m)])"
  by (simp add: check_vm_exists_def call_instances_get_def)

lemma attempt_not_found:
  "delete_vm_attempt fuel env n p t = (Raises e, t1) \<Longrightarrow> retry_not_found e \<Longrightarrow>
   attempt \<le> max_retries \<Longrightarrow>
   delete_vm_from fuel env n p max_retries attempt t = (Returns (), t1)"
  by (subst delete_vm_from.simps) (simp add: retry_not_found_def)

lemma attempt_returns:
  "delete_vm_attempt fuel env n p t = (Returns (), t1) \<Longrightarrow> attempt \<le> max_retries \<Longrightarrow>
   delete_vm_from fuel env n p max_retries attempt t = (Returns (), t1)"
  by (subst delete_vm_from.simps) simp

lemma wait_stable_loop_raises:
  "wait_for_vm_stable_loop fuel env n p m st t = (Raises e, t') \<Longrightarrow>
   \<not> contains ''not found'' (lower (str e)) \<and> \<not> contains ''NOT_FOUND'' (str e)"
proof (induction fuel arbitrary: t)
  case 0
  then show ?case by (simp split: if_splits)
next
  case (Suc fuel)
  show ?case
  proof (cases "instances_get env t p ZONE n")
    case (Inl msg)
    with Suc.prems show ?thesis
      by (auto simp: call_instances_get_def split: if_splits)
  next
    case (Inr inst)
    with Suc.prems Suc.IH show ?thesis
      by (auto simp: call_instances_get_def split: if_splits)
  qed
qed

lemma lower_not_found [simp]: "lower ''not found'' = ''not found''"
  by (simp add: lower_def lower_char_def)

subsection \<open>Both stages leave a call in the trace\<close>

lemma delete_vm_from_adds_call:
  assumes "a \<le> m" "delete_vm_from fuel env n p m a t = (r, t')"
  shows "\<exists>s. t' = t @ InstancesGet p ZONE n (instances_get env t p ZONE n) # s"
proof -
  obtain r1 t1 where att: "delete_vm_attempt fuel env n p t = (r1, t1)"
    by (cases "delete_vm_attempt fuel env n p t")
  from delete_vm_attempt_addsD [OF att] obtain s1 where
    s1: "t1 = t @ InstancesGet p ZONE n (instances_get env t p ZONE n) # s1"
    by blast
  show ?thesis
  proof (cases "\<exists>e. r1 = Raises e \<and> \<not> retry_not_found e \<and> a < m")
    case True
    then obtain e where e: "r1 = Raises e" "\<not> retry_not_found e" "a < m" by blast
    with assms att
    have "delete_vm_from fuel env n p m (a + 1) (t1 @ [Sleep (a * 5)]) = (r, t')"
      by (subst (asm) delete_vm_from.simps) (simp add: retry_not_found_def)
    from delete_vm_from_addsD [OF this] obtain s where "t' = (t1 @ [Sleep (a * 5)]) @ s"
      by blast
    with s1 show ?thesis by simp
  next
    case False
    with assms att have "t' = t1"
      by (subst (asm) delete_vm_from.simps)
         (auto simp: retry_not_found_def split: outcome.splits if_splits)
    with s1 show ?thesis by simp
  qed
qed

lemma delete_vm_three_leaves_a_call: "snd (delete_vm fuel env n p 3 t) \<noteq> t"
proof -
  obtain r t' where d: "delete_vm_from fuel env n p 3 1 t = (r, t')"
    by (cases "delete_vm_from fuel env n p 3 1 t")
  from delete_vm_from_adds_call [OF _ d] show ?thesis
    by (auto simp: delete_vm_def d)
qed

lemma create_image_leaves_a_call: "snd (create_image_from_vm fuel env n nm p t) \<noteq> t"
proof -
  obtain r t' where c: "create_image_from_vm fuel env n nm p t = (r, t')"
    by (cases "create_image_from_vm fuel env n nm p t")
  from create_image_addsD [OF c] show ?thesis by (auto simp: c)
qed

subsection \<open>The delete phase seen from the retry loop\<close>

lemma reaches_deleteD:
  assumes "reaches_delete fuel env n p t t3"
  shows "\<exists>t1 b t2 out. check_vm_exists env n p t = (Returns True, t1) \<and>
           wait_for_vm_stable fuel env n p 60 t1 = (Returns b, t2) \<and>
           stop_if_running fuel env n p t2 = (out, t3) \<and> out \<noteq> Unfinished"
  using assms
  by (simp add: reaches_delete_def split: prod.splits outcome.splits)

lemma reaches_delete_attempt:
  assumes "reaches_delete fuel env n p t t3"
  shows "delete_vm_attempt fuel env n p t = try_delete fuel env n p t3"
proof -
  from reaches_deleteD [OF assms] obtain t1 b t2 out where
    c: "check_vm_exists env n p t = (Returns True, t1)"
    and w: "wait_for_vm_stable fuel env n p 60 t1 = (Returns b, t2)"
    and s: "stop_if_running fuel env n p t2 = (out, t3)" "out \<noteq> Unfinished"
    by blast
  from s have "try_stop fuel env n p t2 = (Returns (), t3)"
    by (cases out) (simp_all add: try_stop_def)
  from attempt_after_stop [OF c w this] show ?thesis .
qed

lemma delete_vm_from_extends_attempt:
  assumes "a \<le> m" "delete_vm_attempt fuel env n p t = (r1, t1)"
  shows "\<exists>s. snd (delete_vm_from fuel env n p m a t) = t1 @ s"
proof (cases "\<exists>e. r1 = Raises e \<and> \<not> retry_not_found e \<and> a < m")
  case True
  then obtain e where e: "r1 = Raises e" "\<not> retry_not_found e" "a < m" by blast
  obtain r t' where d: "delete_vm_from fuel env n p m (a + 1) (t1 @ [Sleep (a * 5)]) = (r, t')"
    by (cases "delete_vm_from fuel env n p m (a + 1) (t1 @ [Sleep (a * 5)])")
  from e assms d have "delete_vm_from fuel env n p m a t = (r, t')"
    by (subst delete_vm_from.simps) (simp add: retry_not_found_def)
  moreover from delete_vm_from_addsD [OF d] obtain s where "t' = (t1 @ [Sleep (a * 5)]) @ s"
    by blast
  ultimately show ?thesis by simp
next
  case False
  with assms have "snd (delete_vm_from fuel env n p m a t) = t1"
    by (subst delete_vm_from.simps)
       (auto simp: retry_not_found_def split: outcome.splits if_splits)
  then show ?thesis by simp
qed

lemma delete_and_wait_call_raises:
  "instances_delete env t p ZONE n = Inl m \<Longrightarrow>
   delete_and_wait fuel env n p t =
     (Raises (ClientError m), t @ [InstancesDelete p ZONE n (Inl m)])"
  by (simp add: delete_and_wait_def call_instances_delete_def)

lemma stabilisation_not_found:
  "instances_get env t p ZONE n = Inl m \<Longrightarrow>
   contains ''not found'' (lower m) \<or> contains ''NOT_FOUND'' m \<Longrightarrow>
   wait_for_vm_stable (Suc fuel) env n p 60 t = (Returns False, t @ [InstancesGet p ZONE n (Inl m)])"
  by (simp add: wait_for_vm_stable_def call_instances_get_def)

lemma delete_phase_facts:
  assumes le: "attempt \<le> max_retries" and reach: "reaches_delete fuel env n p t t3"
  shows "(\<exists>s. snd (delete_vm_from fuel env n p max_retries attempt t) =
              t3 @ InstancesDelete p ZONE n (instances_delete env t3 p ZONE n) # s)"
    and "delete_and_wait fuel env n p t3 = (Returns (), t4) \<Longrightarrow>
           delete_vm_from fuel env n p max_retries attempt t = (Returns (), t4)"
    and "delete_and_wait fuel env n p t3 = (Raises e, t4) \<Longrightarrow>
           contains ''not found'' (lower (str e)) \<Longrightarrow>
           delete_vm_from fuel env n p max_retries attempt t = (Returns (), t4)"
    and "delete_and_wait fuel env n p t3 = (Raises e, t4) \<Longrightarrow>
           \<not> contains ''not found'' (lower (str e)) \<Longrightarrow>
           force_stop fuel env n p t4 = (Returns (), t5) \<Longrightarrow>
           (\<exists>s. snd (delete_vm_from fuel env n p max_retries attempt t) =
              t5 @ InstancesDelete p ZONE n (instances_delete env t5 p ZONE n) # s)"
    and "delete_and_wait fuel env n p t3 = (Raises e, t4) \<Longrightarrow>
           \<not> contains ''not found'' (lower (str e)) \<Longrightarrow>
           force_stop fuel env n p t4 = (Returns (), t5) \<Longrightarrow>
           delete_and_wait fuel env n p t5 = (Returns (), t6) \<Longrightarrow>
           delete_vm_from fuel env n p max_retries attempt t = (Returns (), t6)"
    and "delete_and_wait fuel env n p t3 = (Raises e, t4) \<Longrightarrow>
           \<not> contains ''not found'' (lower (str e)) \<Longrightarrow>
           force_stop fuel env n p t4 = (Returns (), t5) \<Longrightarrow>
           delete_and_wait fuel env n p t5 = (Raises e', t6) \<Longrightarrow> retry_not_found e' \<Longrightarrow>
           delete_vm_from fuel env n p max_retries attempt t = (Returns (), t6)"
proof -
  note att = reaches_delete_attempt [OF reach]
  obtain r t' where td: "try_delete fuel env n p t3 = (r, t')"
    by (cases "try_delete fuel env n p t3")
  from try_delete_addsD [OF td] obtain s0 where
    s0: "t' = t3 @ InstancesDelete p ZONE n (instances_delete env t3 p ZONE n) # s0" by blast
  from delete_vm_from_extends_attempt [OF le att [unfolded td]] s0
  show "\<exists>s. snd (delete_vm_from fuel env n p max_retries attempt t) =
              t3 @ InstancesDelete p ZONE n (instances_delete env t3 p ZONE n) # s"
    by auto
  show "delete_vm_from fuel env n p max_retries attempt t = (Returns (), t4)"
    if "delete_and_wait fuel env n p t3 = (Returns (), t4)"
    using that att le by (intro attempt_returns) (simp_all add: try_delete_def)
  show "delete_vm_from fuel env n p max_retries attempt t = (Returns (), t4)"
    if "delete_and_wait fuel env n p t3 = (Raises e, t4)" "contains ''not found'' (lower (str e))"
    using that att le by (intro attempt_returns) (simp_all add: try_delete_def)
  show "\<exists>s. snd (delete_vm_from fuel env n p max_retries attempt t) =
              t5 @ InstancesDelete p ZONE n (instances_delete env t5 p ZONE n) # s"
    if h: "delete_and_wait fuel env n p t3 = (Raises e, t4)"
      "\<not> contains ''not found'' (lower (str e))" "force_stop fuel env n p t4 = (Returns (), t5)"
  proof -
    obtain r2 t6 where d2: "delete_and_wait fuel env n p t5 = (r2, t6)"
      by (cases "delete_and_wait fuel env n p t5")
    from delete_and_wait_addsD [OF d2] obtain s2 where
      s2: "t6 = t5 @ InstancesDelete p ZONE n (instances_delete env t5 p ZONE n) # s2" by blast
    from h d2 have "snd (try_delete fuel env n p t3) = t6"
      by (cases r2) (simp_all add: try_delete_def force_delete_def)
    then obtain r3 where "delete_vm_attempt fuel env n p t = (r3, t6)"
      using att by (metis prod.collapse)
    from delete_vm_from_extends_attempt [OF le this] s2 show ?thesis by auto
  qed
  show "delete_vm_from fuel env n p max_retries attempt t = (Returns (), t6)"
    if "delete_and_wait fuel env n p t3 = (Raises e, t4)"
      "\<not> contains ''not found'' (lower (str e))" "force_stop fuel env n p t4 = (Returns (), t5)"
      "delete_and_wait fuel env n p t5 = (Returns (), t6)"
    using that att le by (intro attempt_returns) (simp_all add: try_delete_def force_delete_def)
  show "delete_vm_from fuel env n p max_retries attempt t = (Returns (), t6)"
    if h: "delete_and_wait fuel env n p t3 = (Raises e, t4)"
      "\<not> contains ''not found'' (lower (str e))" "force_stop fuel env n p t4 = (Returns (), t5)"
      "delete_and_wait fuel env n p t5 = (Raises e', t6)" "retry_not_found e'"
  proof (cases "contains ''not found'' (lower (str e'))")
    case True
    with h att le show ?thesis
      by (intro attempt_returns) (simp_all add: try_delete_def force_delete_def)
  next
    case False
    with h att have "delete_vm_attempt fuel env n p t = (Raises e', t6)"
      by (simp add: try_delete_def force_delete_def)
    from attempt_not_found [OF this h(5) le] show ?thesis .
  qed
qed

lemma gone_midway_facts:
  "reaches_delete (Suc 0) collab_gone_midway ''vm-1'' p []
     [InstancesGet p ZONE ''vm-1'' (Inr running_vm),
      InstancesGet p ZONE ''vm-1'' (Inl ''not found''),
      InstancesGet p ZONE ''vm-1'' (Inl ''not found'')]"
  "delete_and_wait (Suc 0) collab_gone_midway ''vm-1'' p
     [InstancesGet p ZONE ''vm-1'' (Inr running_vm),
      InstancesGet p ZONE ''vm-1'' (Inl ''not found''),
      InstancesGet p ZONE ''vm-1'' (Inl ''not found'')] =
   (Raises (ClientError ''not found''),
     [InstancesGet p ZONE ''vm-1'' (Inr running_vm),
      InstancesGet p ZONE ''vm-1'' (Inl ''not found''),
      InstancesGet p ZONE ''vm-1'' (Inl ''not found''),
      InstancesDelete p ZONE ''vm-1'' (Inl ''not found'')])"
  by (simp_all add: reaches_delete_def check_vm_exists_def wait_for_vm_stable_def
        stop_if_running_def delete_and_wait_def call_instances_get_def call_instances_delete_def
        collab_gone_midway_def)

lemma gone_on_force_facts:
  "reaches_delete (Suc 0) collab_gone_on_force ''vm-1'' p []
     [InstancesGet p ZONE ''vm-1'' (Inr running_vm),
      InstancesGet p ZONE ''vm-1'' (Inr running_vm),
      InstancesGet p ZONE ''vm-1'' (Inr running_vm),
      InstancesStop p ZONE ''vm-1'' (Inr done_op),
      ZoneOperationsGet p ZONE ''op-1'' (Inr done_op)]"
  "delete_and_wait (Suc 0) collab_gone_on_force ''vm-1'' p
     [InstancesGet p ZONE ''vm-1'' (Inr running_vm),
      InstancesGet p ZONE ''vm-1'' (Inr running_vm),
      InstancesGet p ZONE ''vm-1'' (Inr running_vm),
      InstancesStop p ZONE ''vm-1'' (Inr done_op),
      ZoneOperationsGet p ZONE ''op-1'' (Inr done_op)] =
   (Raises (ClientError ''boom''),
     [InstancesGet p ZONE ''vm-1'' (Inr running_vm),
      InstancesGet p ZONE ''vm-1'' (Inr running_vm),
      InstancesGet p ZONE ''vm-1'' (Inr running_vm),
      InstancesStop p ZONE ''vm-1'' (Inr done_op),
      ZoneOperationsGet p ZONE ''op-1'' (Inr done_op),
      InstancesDelete p ZONE ''vm-1'' (Inl ''boom'')])"
  "force_stop (Suc 0) collab_gone_on_force ''vm-1'' p
     [InstancesGet p ZONE ''vm-1'' (Inr running_vm),
      InstancesGet p ZONE ''vm-1'' (Inr running_vm),
      InstancesGet p ZONE ''vm-1'' (Inr running_vm),
      InstancesStop p ZONE ''vm-1'' (Inr done_op),
      ZoneOperationsGet p ZONE ''op-1'' (Inr done_op),
      InstancesDelete p ZONE ''vm-1'' (Inl ''boom'')] =
   (Returns (),
     [InstancesGet p ZONE ''vm-1'' (Inr running_vm),
      InstancesGet p ZONE ''vm-1'' (Inr running_vm),
      InstancesGet p ZONE ''vm-1'' (Inr running_vm),
      InstancesStop p ZONE ''vm-1'' (Inr done_op),
      ZoneOperationsGet p ZONE ''op-1'' (Inr done_op),
      InstancesDelete p ZONE ''vm-1'' (Inl ''boom''),
      InstancesGet p ZONE ''vm-1'' (Inr running_vm),
      InstancesStop p ZONE ''vm-1'' (Inr done_op),
      ZoneOperationsGet p ZONE ''op-1'' (Inr done_op),
      Sleep 5])"
  "delete_and_wait (Suc 0) collab_gone_on_force ''vm-1'' p
     [InstancesGet p ZONE ''vm-1'' (Inr running_vm),
      InstancesGet p ZONE ''vm-1'' (Inr running_vm),
      InstancesGet p ZONE ''vm-1'' (Inr running_vm),
      InstancesStop p ZONE ''vm-1'' (Inr done_op),
      ZoneOperationsGet p ZONE ''op-1'' (Inr done_op),
      InstancesDelete p ZONE ''vm-1'' (Inl ''boom''),
      InstancesGet p ZONE ''vm-1'' (Inr running_vm),
      InstancesStop p ZONE ''vm-1'' (Inr done_op),
      ZoneOperationsGet p ZONE ''op-1'' (Inr done_op),
      Sleep 5] =
   (Raises (ClientError ''not found''),
     [InstancesGet p ZONE ''vm-1'' (Inr running_vm),
      InstancesGet p ZONE ''vm-1'' (Inr running_vm),
      InstancesGet p ZONE ''vm-1'' (Inr running_vm),
      InstancesStop p ZONE ''vm-1'' (Inr done_op),
      ZoneOperationsGet p ZONE ''op-1'' (Inr done_op),
      InstancesDelete p ZONE ''vm-1'' (Inl ''boom''),
      InstancesGet p ZONE ''vm-1'' (Inr running_vm),
      InstancesStop p ZONE ''vm-1'' (Inr done_op),
      ZoneOperationsGet p ZONE ''op-1'' (Inr done_op),
      Sleep 5,
      InstancesDelete p ZONE ''vm-1'' (Inl ''not found'')])"
  by (simp_all add: reaches_delete_def check_vm_exists_def wait_for_vm_stable_def
        stop_if_running_def force_stop_def delete_and_wait_def call_instances_get_def
        call_instances_stop_def call_instances_delete_def call_zone_operations_get_def
        collab_gone_on_force_def running_vm_def done_op_def)

lemma not_found_texts:
  "contains ''not found'' (lower (str (ClientError ''not found'')))"
  "\<not> contains ''not found'' (lower (str (ClientError ''boom'')))"
  "retry_not_found (ClientError ''not found'')"
  by (simp_all add: retry_not_found_def lower_def lower_char_def)

subsection \<open>The images an invocation inserts\<close>

lemma create_image_inserts:
  "create_image_from_vm fuel env n nm p t = (r, t') \<Longrightarrow>
   \<exists>s. t' = t @ s \<and>
       (\<forall>e\<in>set s. is_insert e \<longrightarrow>
          (\<exists>src ans. e = ImagesInsert p (promoted_image_resource n nm src) ans))"
  by (auto simp: create_image_from_vm_def call_instances_stop_def call_instances_get_def
        call_images_insert_def filter_empty_conv
      split: sum.splits outcome.splits option.splits if_splits prod.splits
      dest!: wait_zone_addsD wait_global_addsD)

lemma cleanup_step_addsD:
  "cleanup_step fuel env skip img vi t = (r, t') \<Longrightarrow> \<exists>s. t' = t @ s \<and> filter is_insert s = []"
  by (auto simp: cleanup_step_def split: if_splits dest!: delete_vm_addsD)

lemma promote_cleanup_promoting:
  assumes "attr event ''validation_instance'' [] \<noteq> []"
    and "attr event ''scan_result'' [] = ''Pass''"
    and "lower (attr event ''skip_promotion'' ''false'') \<noteq> ''true''"
    and "payload_decodes env event"
  shows "promote_cleanup fuel env event t =
     (case create_image_from_vm fuel env (attr event ''validation_instance'' [])
             (attr event ''image_id'' [] @ ''-promoted-'' @ strftime_Ymd_HMS (datetime_now env t))
             (PROJECT_ID env) t of
        (Raises e, t1) \<Rightarrow> (Raises e, t1)
      | (Unfinished, t1) \<Rightarrow> (Unfinished, t1)
      | (Returns img, t1) \<Rightarrow>
          (case cleanup_step fuel env (lower (attr event ''skip_destroy'' ''false'') = ''true'')
                  (Some img) (attr event ''validation_instance'' []) t1 of
             (Raises e, t2) \<Rightarrow> (Raises e, t2)
           | (Unfinished, t2) \<Rightarrow> (Unfinished, t2)
           | (Returns u, t2) \<Rightarrow>
               (Returns (Some \<lparr> res_status = ''success'', res_promoted_image = Some img,
                   res_validation_instance = attr event ''validation_instance'' [],
                   res_timestamp = isoformat (datetime_now env t2) \<rparr>), t2)))"
  using assms
  by (simp add: promote_cleanup_def promotion_step_def attr_def Let_def payload_decodes_def
      split: option.splits sum.splits prod.splits outcome.splits)

lemma ok_cleanup:
  "cleanup_step (Suc 0) (collab_ok now) False (Some nm) ''vm-1'' t =
     delete_vm (Suc 0) (collab_ok now) ''vm-1'' ''sandbox-dev-478813'' 3
       (if nm \<noteq> [] then t @ [Sleep 5] else t)"
  by (simp add: cleanup_step_def collab_ok_env)

section \<open>The claims\<close>

text \<open>
  C9. With \<open>max_retries\<close> zero or negative the range of attempts is empty:
  \<^verbatim>\<open>delete_vm\<close> returns at once, for every instance name, every collaborator and
  every fuel, and the trace is unchanged: no remote call is issued (not even the
  existence check), nothing is slept, nothing is raised.
\<close>

theorem delete_vm_no_attempts:
  "max_retries \<le> 0 \<Longrightarrow>
   delete_vm fuel env instance_name project_id max_retries t = (Returns (), t)"
  by (simp add: delete_vm_def delete_vm_from.simps)

theorem delete_vm_no_attempts_witness:
  "(0::int) \<le> 0 \<and>
   delete_vm 0 (collab_raising ''boom'') ''vm-1'' ''sandbox'' 0 [] = (Returns (), [])"
  using delete_vm_no_attempts [of 0 0 "collab_raising ''boom''" "''vm-1''" "''sandbox''" "[]"]
  by simp

text \<open>
  C2, as amended. For every event whose \<^verbatim>\<open>scan_result\<close> attribute is anything but
  \<^verbatim>\<open>Pass\<close> (the empty default included), \<^verbatim>\<open>promote_cleanup\<close> leaves the trace
  unchanged: no remote call is issued and nothing is slept. Since
  \<^verbatim>\<open>create_image_from_vm\<close> and \<^verbatim>\<open>delete_vm\<close> (with its three attempts) each leave at
  least one call in the trace, neither has run. When the payload is absent or decodes,
  \<^verbatim>\<open>promote_cleanup\<close> returns early (a bare \<^verbatim>\<open>return\<close>); when the payload does not
  decode it raises the decoding error instead, because the payload is decoded before
  the gates are looked at.
\<close>

theorem scan_gate:
  assumes "attr event ''scan_result'' [] \<noteq> ''Pass''"
  shows "snd (promote_cleanup fuel env event t) = t \<and>
         (payload_decodes env event \<longrightarrow> promote_cleanup fuel env event t = (Returns None, t)) \<and>
         (\<not> payload_decodes env event \<longrightarrow>
            (\<exists>m. promote_cleanup fuel env event t = (Raises (DecodeError m), t))) \<and>
         (\<forall>n nm p. snd (create_image_from_vm fuel env n nm p t) \<noteq> t) \<and>
         (\<forall>n p. snd (delete_vm fuel env n p 3 t) \<noteq> t)"
  using assms create_image_leaves_a_call [of fuel env _ _ _ t]
    delete_vm_three_leaves_a_call [of fuel env _ _ t]
  by (auto simp: promote_cleanup_def payload_decodes_def attr_def Let_def
           split: option.splits sum.splits)

theorem scan_gate_witness:
  "attr unknown_scan ''scan_result'' [] \<noteq> ''Pass'' \<and>
   promote_cleanup 0 (collab_raising ''boom'') unknown_scan [] = (Returns None, [])"
  using scan_gate [of unknown_scan 0 "collab_raising ''boom''" "[]"]
  by (simp add: attr_def event_attributes_def unknown_scan_def dict_get_def payload_decodes_def)

text \<open>
  C2 as stated fails: with a failed scan and a payload that does not decode,
  \<^verbatim>\<open>promote_cleanup\<close> does not return, it raises.
\<close>

theorem scan_gate_counterexample:
  "promote_cleanup 0 (collab_raising ''boom'') undecodable_failed_scan [] =
     (Raises (DecodeError ''invalid start byte''), [])"
  by (simp add: promote_cleanup_def undecodable_failed_scan_def collab_raising_def)

text \<open>
  C3, as amended. For every event whose \<^verbatim>\<open>validation_instance\<close> attribute is empty or
  absent, \<^verbatim>\<open>promote_cleanup\<close> leaves the trace unchanged (no remote call), and when the
  payload is absent or decodes it returns \<^verbatim>\<open>None\<close> (a bare \<^verbatim>\<open>return\<close>, not a
  result record) without raising; a payload that does not decode raises the decoding
  error.
\<close>

theorem missing_instance_gate:
  assumes "attr event ''validation_instance'' [] = []"
  shows "snd (promote_cleanup fuel env event t) = t \<and>
         (payload_decodes env event \<longrightarrow> promote_cleanup fuel env event t = (Returns None, t)) \<and>
         (\<not> payload_decodes env event \<longrightarrow>
            (\<exists>m. promote_cleanup fuel env event t = (Raises (DecodeError m), t)))"
  using assms
  by (auto simp: promote_cleanup_def payload_decodes_def attr_def Let_def
           split: option.splits sum.splits)

theorem missing_instance_gate_witness:
  "attr passed_scan_empty_instance ''validation_instance'' [] = [] \<and>
   promote_cleanup 0 (collab_raising ''boom'') passed_scan_empty_instance [] = (Returns None, [])"
  using missing_instance_gate [of passed_scan_empty_instance 0 "collab_raising ''boom''" "[]"]
  by (simp add: attr_def event_attributes_def passed_scan_empty_instance_def dict_get_def
                payload_decodes_def)

text \<open>
  C3 as stated fails: what is returned when the attribute is absent is \<^verbatim>\<open>None\<close>, not
  a record with the fields \<^verbatim>\<open>status\<close>, \<^verbatim>\<open>promoted_image\<close>,
  \<^verbatim>\<open>validation_instance\<close>, \<^verbatim>\<open>timestamp\<close>.
\<close>

theorem missing_instance_gate_counterexample:
  "promote_cleanup 0 (collab_raising ''boom'') passed_scan_without_instance [] =
     (Returns None, [])"
  by (simp add: promote_cleanup_def passed_scan_without_instance_def collab_raising_def
                event_attributes_def dict_get_def Let_def)

text \<open>
  C4. If each of three attempts in a row ends in an exception that the retry handler
  does not take for not-found (the first attempt starting at \<open>t\<close>, the second after a
  sleep of 5 seconds, the third after a sleep of 10 seconds), then \<^verbatim>\<open>delete_vm\<close> with
  \<open>max_retries = 3\<close> runs exactly these three attempts with exactly these two sleeps
  between them and raises the exception of the third attempt; there is no fourth
  attempt and no sleep after the third.
\<close>

theorem delete_vm_exhausts_retries:
  assumes "delete_vm_attempt fuel env instance_name project_id t = (Raises e1, t1)"
    and "\<not> retry_not_found e1"
    and "delete_vm_attempt fuel env instance_name project_id (t1 @ [Sleep 5]) = (Raises e2, t2)"
    and "\<not> retry_not_found e2"
    and "delete_vm_attempt fuel env instance_name project_id (t2 @ [Sleep 10]) = (Raises e3, t3)"
    and "\<not> retry_not_found e3"
  shows "delete_vm fuel env instance_name project_id 3 t = (Raises e3, t3)"
proof -
  have "delete_vm_from fuel env instance_name project_id 3 3 (t2 @ [Sleep 10]) = (Raises e3, t3)"
    using assms(5,6) by (subst delete_vm_from.simps) (simp add: retry_not_found_def)
  then have "delete_vm_from fuel env instance_name project_id 3 2 (t1 @ [Sleep 5]) = (Raises e3, t3)"
    using assms(3,4) by (subst delete_vm_from.simps) (simp add: retry_not_found_def)
  then have "delete_vm_from fuel env instance_name project_id 3 1 t = (Raises e3, t3)"
    using assms(1,2) by (subst delete_vm_from.simps) (simp add: retry_not_found_def)
  then show ?thesis by (simp add: delete_vm_def)
qed

theorem delete_vm_exhausts_retries_witness:
  "delete_vm 0 (collab_raising ''boom'') ''vm-1'' ''sandbox'' 3 [] =
     (Raises (ClientError ''boom''),
      [InstancesGet ''sandbox'' ZONE ''vm-1'' (Inl ''boom''), Sleep 5,
       InstancesGet ''sandbox'' ZONE ''vm-1'' (Inl ''boom''), Sleep 10,
       InstancesGet ''sandbox'' ZONE ''vm-1'' (Inl ''boom'')])"
  using delete_vm_exhausts_retries
          [of 0 "collab_raising ''boom''" "''vm-1''" "''sandbox''" "[]",
           OF attempt_raising _ attempt_raising _ attempt_raising]
  by (simp add: retry_not_found_def)

text \<open>
  C7. For every operation identifier and both waiters: the waiter returns (given enough
  fuel) if and only if some poll, after polls that all found the operation not yet
  done, finds it \<open>DONE\<close> with no error payload; it raises the exception carrying
  payload \<open>pl\<close> if and only if some such poll finds it \<open>DONE\<close> with error payload
  \<open>pl\<close>; and if every poll finds the operation not yet done, the waiter is still
  polling whatever the fuel, its trace being one poll and one sleep of 2 seconds per
  round: it never returns. (The exception is the plain \<^verbatim>\<open>Exception\<close> whose text is
  \<^verbatim>\<open>Operation failed:\<close> followed by the payload.)
\<close>

theorem operation_waiters:
  "((\<exists>fuel. fst (wait_for_zone_operation fuel env n p z t) = Returns ()) \<longleftrightarrow>
      (\<exists>k. (\<forall>j<k. pending (zone_answer env n p z t j)) \<and> done_ok (zone_answer env n p z t k))) \<and>
   ((\<exists>fuel. fst (wait_for_zone_operation fuel env n p z t) = Raises (OperationFailed pl)) \<longleftrightarrow>
      (\<exists>k. (\<forall>j<k. pending (zone_answer env n p z t j)) \<and>
           done_failed (zone_answer env n p z t k) pl)) \<and>
   ((\<forall>k. pending (zone_answer env n p z t k)) \<longrightarrow>
      (\<forall>fuel. wait_for_zone_operation fuel env n p z t = (Unfinished, zone_polls env n p z t fuel))) \<and>
   ((\<exists>fuel. fst (wait_for_global_operation fuel env n p t) = Returns ()) \<longleftrightarrow>
      (\<exists>k. (\<forall>j<k. pending (global_answer env n p t j)) \<and> done_ok (global_answer env n p t k))) \<and>
   ((\<exists>fuel. fst (wait_for_global_operation fuel env n p t) = Raises (OperationFailed pl)) \<longleftrightarrow>
      (\<exists>k. (\<forall>j<k. pending (global_answer env n p t j)) \<and>
           done_failed (global_answer env n p t k) pl)) \<and>
   ((\<forall>k. pending (global_answer env n p t k)) \<longrightarrow>
      (\<forall>fuel. wait_for_global_operation fuel env n p t =
         (Unfinished, global_polls env n p t fuel)))"
proof -
  let ?za = "\<lambda>t. zone_operations_get env t p z n"
  let ?ga = "\<lambda>t. global_operations_get env t p n"
  have z1: "(\<exists>fuel. fst (wait_for_zone_operation fuel env n p z t) = Returns ()) \<longleftrightarrow>
      (\<exists>k. (\<forall>j<k. pending (zone_answer env n p z t j)) \<and> done_ok (zone_answer env n p z t k))"
    unfolding zone_is_poll zone_answer_def zone_polls_def
    using poll_Returns_iff [of ?za "ZoneOperationsGet p z n" t] by simp
  have z2: "(\<exists>fuel. fst (wait_for_zone_operation fuel env n p z t) = Raises (OperationFailed pl)) \<longleftrightarrow>
      (\<exists>k. (\<forall>j<k. pending (zone_answer env n p z t j)) \<and>
           done_failed (zone_answer env n p z t k) pl)"
    unfolding zone_is_poll zone_answer_def zone_polls_def
    using poll_Failed_iff [of ?za "ZoneOperationsGet p z n" t pl] by simp
  have z3: "(\<forall>k. pending (zone_answer env n p z t k)) \<longrightarrow>
      (\<forall>fuel. wait_for_zone_operation fuel env n p z t = (Unfinished, zone_polls env n p z t fuel))"
    unfolding zone_is_poll zone_answer_def zone_polls_def
    using poll_all_pending [of _ ?za "ZoneOperationsGet p z n" t] by simp
  have g1: "(\<exists>fuel. fst (wait_for_global_operation fuel env n p t) = Returns ()) \<longleftrightarrow>
      (\<exists>k. (\<forall>j<k. pending (global_answer env n p t j)) \<and> done_ok (global_answer env n p t k))"
    unfolding global_is_poll global_answer_def global_polls_def
    using poll_Returns_iff [of ?ga "GlobalOperationsGet p n" t] by simp
  have g2: "(\<exists>fuel. fst (wait_for_global_operation fuel env n p t) = Raises (OperationFailed pl)) \<longleftrightarrow>
      (\<exists>k. (\<forall>j<k. pending (global_answer env n p t j)) \<and>
           done_failed (global_answer env n p t k) pl)"
    unfolding global_is_poll global_answer_def global_polls_def
    using poll_Failed_iff [of ?ga "GlobalOperationsGet p n" t pl] by simp
  have g3: "(\<forall>k. pending (global_answer env n p t k)) \<longrightarrow>
      (\<forall>fuel. wait_for_global_operation fuel env n p t =
         (Unfinished, global_polls env n p t fuel))"
    unfolding global_is_poll global_answer_def global_polls_def
    using poll_all_pending [of _ ?ga "GlobalOperationsGet p n" t] by simp
  from z1 z2 z3 g1 g2 g3 show ?thesis by (intro conjI)
qed

theorem operation_waiters_witness:
  "(\<exists>fuel. fst (wait_for_zone_operation fuel (collab_ok noon) ''op-1'' ''sandbox'' ZONE []) =
      Returns ()) \<and>
   (\<forall>fuel. wait_for_global_operation fuel collab_pending ''op-1'' ''sandbox'' [] =
      (Unfinished, global_polls collab_pending ''op-1'' ''sandbox'' [] fuel))"
proof -
  have "done_ok (zone_answer (collab_ok noon) ''op-1'' ''sandbox'' ZONE [] 0)"
    by (simp add: zone_answer_def collab_ok_def done_ok_def done_op_def)
  then have "\<exists>k. (\<forall>j<k. pending (zone_answer (collab_ok noon) ''op-1'' ''sandbox'' ZONE [] j)) \<and>
                 done_ok (zone_answer (collab_ok noon) ''op-1'' ''sandbox'' ZONE [] k)"
    by (intro exI [of _ 0]) simp
  moreover have "\<forall>k. pending (global_answer collab_pending ''op-1'' ''sandbox'' [] k)"
    by (simp add: global_answer_def collab_pending_def pending_def running_op_def)
  ultimately show ?thesis
    using operation_waiters [of "collab_ok noon" "''op-1''" "''sandbox''" ZONE "[]" "[]"]
          operation_waiters [of collab_pending "''op-1''" "''sandbox''" ZONE "[]" "[]"]
    by (simp only: simp_thms)
qed

text \<open>
  C1. For every event that reaches both stages (non-empty \<^verbatim>\<open>validation_instance\<close>,
  \<^verbatim>\<open>scan_result\<close> \<^verbatim>\<open>Pass\<close>, neither stage skipped, payload absent or decodable), and
  every fuel: the invocation's trace begins with the events \<open>s1\<close> of
  \<^verbatim>\<open>create_image_from_vm\<close>, none of which is a delete call. If promotion raises or is
  still running, the invocation ends there with the same outcome: no call of
  \<^verbatim>\<open>delete_vm\<close> follows. If promotion returns, \<open>s1\<close> holds the image creation and its
  completed wait, and all events of \<^verbatim>\<open>delete_vm\<close> come after \<open>s1\<close> and the sleep of
  5 seconds. Hence before any delete call of the invocation the image has been created
  and its operation seen done.
\<close>

theorem promotion_precedes_cleanup:
  assumes vi: "attr event ''validation_instance'' [] \<noteq> []"
    and scan: "attr event ''scan_result'' [] = ''Pass''"
    and promo: "lower (attr event ''skip_promotion'' ''false'') \<noteq> ''true''"
    and destroy: "lower (attr event ''skip_destroy'' ''false'') \<noteq> ''true''"
    and payload: "payload_decodes env event"
  shows "\<exists>out1 s1.
           create_image_from_vm fuel env (attr event ''validation_instance'' [])
             (promoted_name env event t) (PROJECT_ID env) t = (out1, t @ s1) \<and>
           filter is_delete s1 = [] \<and>
           (case out1 of
              Raises e \<Rightarrow> promote_cleanup fuel env event t = (Raises e, t @ s1)
            | Unfinished \<Rightarrow> promote_cleanup fuel env event t = (Unfinished, t @ s1)
            | Returns img \<Rightarrow>
                image_created s1 \<and>
                (\<exists>s2. snd (delete_vm fuel env (attr event ''validation_instance'' [])
                              (PROJECT_ID env) 3 (t @ s1 @ [Sleep 5])) = t @ s1 @ Sleep 5 # s2 \<and>
                      snd (promote_cleanup fuel env event t) = t @ s1 @ Sleep 5 # s2)) \<and>
           (\<forall>pre d post. snd (promote_cleanup fuel env event t) = t @ pre @ d # post \<longrightarrow>
                          is_delete d \<longrightarrow> image_created pre)"
proof -
  let ?vi = "attr event ''validation_instance'' []"
  let ?name = "promoted_name env event t"
  obtain out1 t1 where c: "create_image_from_vm fuel env ?vi ?name (PROJECT_ID env) t = (out1, t1)"
    by (cases "create_image_from_vm fuel env ?vi ?name (PROJECT_ID env) t")
  from create_image_addsD [OF c] obtain s1 where s1: "t1 = t @ s1" "filter is_delete s1 = []"
    by blast
  note pc = promote_cleanup_both_stages [OF vi scan promo destroy payload, of fuel t]
  show ?thesis
  proof (cases out1)
    case (Raises e)
    with c s1 pc have r: "promote_cleanup fuel env event t = (Raises e, t @ s1)" by simp
    have "image_created pre" if "snd (promote_cleanup fuel env event t) = t @ pre @ d # post"
      "is_delete d" for pre d post
      using no_delete_in [OF s1(2), of pre d post] that r by simp
    with c s1 r Raises show ?thesis by auto
  next
    case Unfinished
    with c s1 pc have r: "promote_cleanup fuel env event t = (Unfinished, t @ s1)" by simp
    have "image_created pre" if "snd (promote_cleanup fuel env event t) = t @ pre @ d # post"
      "is_delete d" for pre d post
      using no_delete_in [OF s1(2), of pre d post] that r by simp
    with c s1 r Unfinished show ?thesis by auto
  next
    case (Returns img)
    from create_image_Returns [OF c [unfolded Returns]] obtain a b src operation op' where
      img: "img = ?name"
      and dec: "t1 = t @ a @ ImagesInsert (PROJECT_ID env) (promoted_image_resource ?vi ?name src)
                  (Inr operation) # b @
                  [GlobalOperationsGet (PROJECT_ID env) (op_name operation) (Inr op'), Sleep 30]"
      and dn: "op_status op' = DONE" "op_error op' = None"
      by blast
    from dec s1 have "s1 = a @ ImagesInsert (PROJECT_ID env) (promoted_image_resource ?vi ?name src)
                  (Inr operation) # b @
                  GlobalOperationsGet (PROJECT_ID env) (op_name operation) (Inr op') # [Sleep 30]"
      by simp
    then have ic: "image_created s1"
      using image_created_intro [OF dn] by simp
    have ne: "img \<noteq> []" using img by (simp add: promoted_name_def)
    obtain r2 t2 where d: "delete_vm fuel env ?vi (PROJECT_ID env) 3 (t1 @ [Sleep 5]) = (r2, t2)"
      by (cases "delete_vm fuel env ?vi (PROJECT_ID env) 3 (t1 @ [Sleep 5])")
    from delete_vm_addsD [OF d] s1 obtain s2 where s2: "t2 = t @ s1 @ Sleep 5 # s2" by auto
    from pc c Returns ne d have r: "snd (promote_cleanup fuel env event t) = t2"
      by (cases r2) simp_all
    have "image_created pre" if h: "snd (promote_cleanup fuel env event t) = t @ pre @ d # post"
      "is_delete d" for pre d post
    proof -
      from h r s2 have eq: "pre @ d # post = s1 @ Sleep 5 # s2" by simp
      have "d \<notin> set s1" using s1(2) h(2) by (auto simp: filter_empty_conv)
      moreover have "d \<noteq> Sleep 5" using h(2) by auto
      ultimately obtain us where "pre = s1 @ Sleep 5 # us"
        using split_after_marker [OF eq] by blast
      with ic show ?thesis by (simp add: image_created_append_right)
    qed
    moreover have "snd (delete_vm fuel env ?vi (PROJECT_ID env) 3 (t @ s1 @ [Sleep 5])) =
                     t @ s1 @ Sleep 5 # s2"
      using d s1 s2 by simp
    ultimately show ?thesis using c s1 r s2 ic Returns by auto
  qed
qed


theorem promotion_precedes_cleanup_witness:
  "attr passed_scan ''validation_instance'' [] \<noteq> [] \<and>
   attr passed_scan ''scan_result'' [] = ''Pass'' \<and>
   lower (attr passed_scan ''skip_promotion'' ''false'') \<noteq> ''true'' \<and>
   lower (attr passed_scan ''skip_destroy'' ''false'') \<noteq> ''true'' \<and>
   payload_decodes (collab_ok noon) passed_scan \<and>
   image_created
     [InstancesStop ''sandbox-dev-478813'' ZONE ''vm-1'' (Inr done_op),
      ZoneOperationsGet ''sandbox-dev-478813'' ZONE ''op-1'' (Inr done_op),
      InstancesGet ''sandbox-dev-478813'' ZONE ''vm-1'' (Inr running_vm),
      ImagesInsert ''sandbox-dev-478813'' (promoted_image_resource ''vm-1''
          ''rhel9-promoted-20240102-120000''
          ''projects/sandbox/zones/us-central1-a/disks/vm-1'') (Inr done_op),
      GlobalOperationsGet ''sandbox-dev-478813'' ''op-1'' (Inr done_op),
      Sleep 30, Sleep 5,
      InstancesGet ''sandbox-dev-478813'' ZONE ''vm-1'' (Inr running_vm),
      InstancesGet ''sandbox-dev-478813'' ZONE ''vm-1'' (Inr running_vm),
      InstancesGet ''sandbox-dev-478813'' ZONE ''vm-1'' (Inr running_vm),
      InstancesStop ''sandbox-dev-478813'' ZONE ''vm-1'' (Inr done_op),
      ZoneOperationsGet ''sandbox-dev-478813'' ZONE ''op-1'' (Inr done_op)]"
proof -
  have h: "attr passed_scan ''validation_instance'' [] \<noteq> []"
    "attr passed_scan ''scan_result'' [] = ''Pass''"
    "lower (attr passed_scan ''skip_promotion'' ''false'') \<noteq> ''true''"
    "lower (attr passed_scan ''skip_destroy'' ''false'') \<noteq> ''true''"
    "payload_decodes (collab_ok noon) passed_scan"
    by (simp_all add: passed_scan_attrs)
  from promotion_precedes_cleanup [OF h, of "Suc 0" "[]"]
  have "\<forall>pre d post. snd (promote_cleanup (Suc 0) (collab_ok noon) passed_scan []) =
          [] @ pre @ d # post \<longrightarrow> is_delete d \<longrightarrow> image_created pre"
    by blast
  then show ?thesis
    using h ok_invocation by (simp only: append_Nil is_delete_simps simp_thms)
qed

text \<open>
  C8. After a successful stop and wait, let \<open>inst\<close> be the instance the re-read
  returns. If none of its disks is flagged boot, \<^verbatim>\<open>create_image_from_vm\<close> raises the
  exception whose text says that no boot disk was found, and no \<^verbatim>\<open>images.insert\<close> call
  has been added to the trace. If \<open>d\<close> is the first disk flagged boot and its source is
  not empty, the next call is \<^verbatim>\<open>images.insert\<close> of an image named \<open>image_name\<close> whose
  source disk is the source of \<open>d\<close> exactly as the instance reports it, with family
  \<^verbatim>\<open>rhel9-runtime\<close> and the labels \<^verbatim>\<open>source_image\<close> (the instance name),
  \<^verbatim>\<open>validation_status = passed\<close> and \<^verbatim>\<open>created_by\<close>. (A boot disk whose source is
  the empty string is treated like no boot disk: no image is created.)
\<close>

theorem create_image_boot_disk:
  assumes stop: "instances_stop env t p ZONE n = Inr operation"
    and wait: "wait_for_zone_operation fuel env (op_name operation) p ZONE
                 (t @ [InstancesStop p ZONE n (Inr operation)]) = (Returns (), t2)"
    and get: "instances_get env t2 p ZONE n = Inr inst"
  shows
    "((\<forall>d\<in>set (inst_disks inst). \<not> disk_boot d) \<longrightarrow>
        create_image_from_vm fuel env n image_name p t =
          (Raises (NoBootDisk n), t2 @ [InstancesGet p ZONE n (Inr inst)]) \<and>
        str (NoBootDisk n) = ''Could not find boot disk for instance '' @ n \<and>
        filter is_insert (t2 @ [InstancesGet p ZONE n (Inr inst)]) = filter is_insert t) \<and>
     (\<forall>ds1 d ds2.
        inst_disks inst = ds1 @ d # ds2 \<and> (\<forall>x\<in>set ds1. \<not> disk_boot x) \<and> disk_boot d \<and>
        disk_source d \<noteq> [] \<longrightarrow>
        (\<exists>answer s.
           snd (create_image_from_vm fuel env n image_name p t) =
             t2 @ [InstancesGet p ZONE n (Inr inst),
                   ImagesInsert p
                     \<lparr> img_name = image_name,
                       img_description = ''Promoted image from validated VM '' @ n,
                       img_source_disk = disk_source d,
                       img_family = ''rhel9-runtime'',
                       img_labels = [(''source_image'', n), (''validation_status'', ''passed''),
                                     (''created_by'', ''promote-cleanup-function'')] \<rparr>
                     answer] @ s)) \<and>
     (\<forall>ds1 d ds2.
        inst_disks inst = ds1 @ d # ds2 \<and> (\<forall>x\<in>set ds1. \<not> disk_boot x) \<and> disk_boot d \<and>
        disk_source d = [] \<longrightarrow>
        create_image_from_vm fuel env n image_name p t =
          (Raises (NoBootDisk n), t2 @ [InstancesGet p ZONE n (Inr inst)]))"
proof (intro conjI allI impI)
  assume "\<forall>d\<in>set (inst_disks inst). \<not> disk_boot d"
  then have "boot_disk_source_of (inst_disks inst) = None" by (rule boot_none)
  with stop wait get
  show "create_image_from_vm fuel env n image_name p t =
          (Raises (NoBootDisk n), t2 @ [InstancesGet p ZONE n (Inr inst)])"
    by (simp add: create_image_from_vm_def call_instances_stop_def call_instances_get_def)
next
  show "str (NoBootDisk n) = ''Could not find boot disk for instance '' @ n" by simp
next
  from wait_zone_addsD [OF wait] obtain s where
    "t2 = (t @ [InstancesStop p ZONE n (Inr operation)]) @ s" "filter is_insert s = []"
    by blast
  then show "filter is_insert (t2 @ [InstancesGet p ZONE n (Inr inst)]) = filter is_insert t"
    by simp
next
  fix ds1 d ds2
  assume a: "inst_disks inst = ds1 @ d # ds2 \<and> (\<forall>x\<in>set ds1. \<not> disk_boot x) \<and> disk_boot d \<and>
             disk_source d \<noteq> []"
  then have b: "boot_disk_source_of (inst_disks inst) = Some (disk_source d)"
    by (simp add: boot_first)
  let ?img = "promoted_image_resource n image_name (disk_source d)"
  let ?t3 = "t2 @ [InstancesGet p ZONE n (Inr inst)]"
  let ?t4 = "?t3 @ [ImagesInsert p ?img (images_insert env ?t3 p ?img)]"
  have "\<exists>s. snd (create_image_from_vm fuel env n image_name p t) = ?t4 @ s"
  proof (cases "images_insert env ?t3 p ?img")
    case (Inl m)
    with stop wait get a b show ?thesis
      by (simp add: create_image_from_vm_def call_instances_stop_def call_instances_get_def
            call_images_insert_def)
  next
    case (Inr op2)
    obtain r5 t5 where w: "wait_for_global_operation fuel env (op_name op2) p
                            (?t3 @ [ImagesInsert p ?img (Inr op2)]) = (r5, t5)"
      by (cases "wait_for_global_operation fuel env (op_name op2) p
                            (?t3 @ [ImagesInsert p ?img (Inr op2)])")
    from wait_global_addsD [OF w] obtain s where s: "t5 = (?t3 @ [ImagesInsert p ?img (Inr op2)]) @ s"
      by blast
    from stop wait get a b Inr w s show ?thesis
      by (cases r5)
         (simp_all add: create_image_from_vm_def call_instances_stop_def call_instances_get_def
            call_images_insert_def)
  qed
  then show "\<exists>answer s.
           snd (create_image_from_vm fuel env n image_name p t) =
             t2 @ [InstancesGet p ZONE n (Inr inst),
                   ImagesInsert p
                     \<lparr> img_name = image_name,
                       img_description = ''Promoted image from validated VM '' @ n,
                       img_source_disk = disk_source d,
                       img_family = ''rhel9-runtime'',
                       img_labels = [(''source_image'', n), (''validation_status'', ''passed''),
                                     (''created_by'', ''promote-cleanup-function'')] \<rparr>
                     answer] @ s"
    by (auto simp: promoted_image_resource_def)
next
  fix ds1 d ds2
  assume a: "inst_disks inst = ds1 @ d # ds2 \<and> (\<forall>x\<in>set ds1. \<not> disk_boot x) \<and> disk_boot d \<and>
             disk_source d = []"
  then have "boot_disk_source_of (inst_disks inst) = Some []"
    using boot_first [of ds1 d ds2] by simp
  with stop wait get
  show "create_image_from_vm fuel env n image_name p t =
          (Raises (NoBootDisk n), t2 @ [InstancesGet p ZONE n (Inr inst)])"
    by (simp add: create_image_from_vm_def call_instances_stop_def call_instances_get_def)
qed

theorem create_image_boot_disk_witness:
  "create_image_from_vm (Suc 0) collab_no_boot ''vm-1'' ''img'' ''sandbox'' [] =
     (Raises (NoBootDisk ''vm-1''),
      [InstancesStop ''sandbox'' ZONE ''vm-1'' (Inr done_op),
       ZoneOperationsGet ''sandbox'' ZONE ''op-1'' (Inr done_op),
       InstancesGet ''sandbox'' ZONE ''vm-1'' (Inr data_only_vm)])"
proof -
  have stop: "instances_stop collab_no_boot [] ''sandbox'' ZONE ''vm-1'' = Inr done_op"
    by (simp add: collab_no_boot_def)
  have wait: "wait_for_zone_operation (Suc 0) collab_no_boot (op_name done_op) ''sandbox'' ZONE
                ([] @ [InstancesStop ''sandbox'' ZONE ''vm-1'' (Inr done_op)]) =
              (Returns (), [InstancesStop ''sandbox'' ZONE ''vm-1'' (Inr done_op),
                            ZoneOperationsGet ''sandbox'' ZONE ''op-1'' (Inr done_op)])"
    by (simp add: collab_no_boot_def call_zone_operations_get_def done_op_def)
  have get: "instances_get collab_no_boot
               [InstancesStop ''sandbox'' ZONE ''vm-1'' (Inr done_op),
                ZoneOperationsGet ''sandbox'' ZONE ''op-1'' (Inr done_op)]
               ''sandbox'' ZONE ''vm-1'' = Inr data_only_vm"
    by (simp add: collab_no_boot_def)
  have nb: "\<forall>d\<in>set (inst_disks data_only_vm). \<not> disk_boot d"
    by (simp add: data_only_vm_def)
  from create_image_boot_disk [OF stop wait get, of "''img''"] nb
  show ?thesis by simp
qed

text \<open>
  C10. Within one attempt of \<^verbatim>\<open>delete_vm\<close> that has reached the stop phase (the
  instance exists, stabilisation has returned): whatever exception the stop phase raises
  (from the status read, the stop call or its wait; not only not-found ones), the
  \<^verbatim>\<open>try\<close> statement around it completes normally, and the attempt goes on exactly as
  the delete phase started from that trace does: the next event is the delete call.
  The outcome of the attempt is the outcome of the delete phase.
\<close>

theorem stop_phase_failures_swallowed:
  assumes "check_vm_exists env n p t = (Returns True, t1)"
    and "wait_for_vm_stable fuel env n p 60 t1 = (Returns b, t2)"
    and "stop_if_running fuel env n p t2 = (Raises e, t3)"
  shows "try_stop fuel env n p t2 = (Returns (), t3) \<and>
         delete_vm_attempt fuel env n p t = try_delete fuel env n p t3 \<and>
         (\<exists>s. snd (delete_vm_attempt fuel env n p t) =
                t3 @ InstancesDelete p ZONE n (instances_delete env t3 p ZONE n) # s)"
proof -
  from assms(3) have ts: "try_stop fuel env n p t2 = (Returns (), t3)"
    by (simp add: try_stop_def)
  from attempt_after_stop [OF assms(1,2) ts]
  have eq: "delete_vm_attempt fuel env n p t = try_delete fuel env n p t3" .
  obtain r t' where td: "try_delete fuel env n p t3 = (r, t')"
    by (cases "try_delete fuel env n p t3")
  from try_delete_addsD [OF td] eq td ts show ?thesis by auto
qed

theorem stop_phase_failures_swallowed_witness:
  "\<exists>s. snd (delete_vm_attempt (Suc 0) collab_stop_fails ''vm-1'' ''sandbox'' []) =
     [InstancesGet ''sandbox'' ZONE ''vm-1'' (Inr running_vm),
      InstancesGet ''sandbox'' ZONE ''vm-1'' (Inr running_vm),
      InstancesGet ''sandbox'' ZONE ''vm-1'' (Inr running_vm),
      InstancesStop ''sandbox'' ZONE ''vm-1'' (Inl ''boom'')] @
     InstancesDelete ''sandbox'' ZONE ''vm-1'' (Inr done_op) # s"
proof -
  note w = stop_phase_failures_swallowed [OF stop_fails_facts, of "''sandbox''"]
  from w [THEN conjunct2, THEN conjunct2] show ?thesis
    by (simp add: collab_stop_fails_def)
qed

text \<open>
  C6, as amended. For every invocation that promotes (non-empty \<^verbatim>\<open>validation_instance\<close>,
  \<^verbatim>\<open>scan_result\<close> \<^verbatim>\<open>Pass\<close>, promotion not skipped, payload absent or decodable),
  whether or not cleanup follows or succeeds: every image the invocation inserts is named
  \<^verbatim>\<open>{image_id}-promoted-{timestamp}\<close>, the timestamp being the clock reading at entry
  formatted to the second (\<^verbatim>\<open>%Y%m%d-%H%M%S\<close>); when \<^verbatim>\<open>create_image_from_vm\<close> returns, it
  returns that name, an image of that name has been inserted, and if cleanup returns the
  result record carries that name. Two invocations for the same \<^verbatim>\<open>image_id\<close> give the
  same name exactly when their formatted timestamps are equal: names differ only across
  different seconds.
\<close>

theorem promoted_image_naming:
  assumes vi: "attr event ''validation_instance'' [] \<noteq> []"
    and scan: "attr event ''scan_result'' [] = ''Pass''"
    and promo: "lower (attr event ''skip_promotion'' ''false'') \<noteq> ''true''"
    and payload: "payload_decodes env event"
  shows
    "(\<forall>pre p img answer post.
        snd (promote_cleanup fuel env event t) = t @ pre @ ImagesInsert p img answer # post \<longrightarrow>
        img_name img =
          attr event ''image_id'' [] @ ''-promoted-'' @ strftime_Ymd_HMS (datetime_now env t)) \<and>
     (\<forall>img t1.
        create_image_from_vm fuel env (attr event ''validation_instance'' [])
          (attr event ''image_id'' [] @ ''-promoted-'' @ strftime_Ymd_HMS (datetime_now env t))
          (PROJECT_ID env) t = (Returns img, t1) \<longrightarrow>
        img = attr event ''image_id'' [] @ ''-promoted-'' @ strftime_Ymd_HMS (datetime_now env t) \<and>
        (\<exists>pre p image operation post.
           snd (promote_cleanup fuel env event t) =
             t @ pre @ ImagesInsert p image (Inr operation) # post \<and>
           img_name image =
             attr event ''image_id'' [] @ ''-promoted-'' @ strftime_Ymd_HMS (datetime_now env t)) \<and>
        (\<forall>t2. cleanup_step fuel env (lower (attr event ''skip_destroy'' ''false'') = ''true'')
                 (Some img) (attr event ''validation_instance'' []) t1 = (Returns (), t2) \<longrightarrow>
           promote_cleanup fuel env event t =
             (Returns (Some \<lparr> res_status = ''success'',
                 res_promoted_image =
                   Some (attr event ''image_id'' [] @ ''-promoted-'' @
                         strftime_Ymd_HMS (datetime_now env t)),
                 res_validation_instance = attr event ''validation_instance'' [],
                 res_timestamp = isoformat (datetime_now env t2) \<rparr>), t2))) \<and>
     (\<forall>r t'. promote_cleanup fuel env event t = (Returns (Some r), t') \<longrightarrow>
        res_promoted_image r =
          Some (attr event ''image_id'' [] @ ''-promoted-'' @
                strftime_Ymd_HMS (datetime_now env t))) \<and>
     (\<forall>env' event' t'.
        attr event' ''image_id'' [] = attr event ''image_id'' [] \<longrightarrow>
        (attr event ''image_id'' [] @ ''-promoted-'' @ strftime_Ymd_HMS (datetime_now env t) =
         attr event' ''image_id'' [] @ ''-promoted-'' @ strftime_Ymd_HMS (datetime_now env' t')
         \<longleftrightarrow>
         strftime_Ymd_HMS (datetime_now env t) = strftime_Ymd_HMS (datetime_now env' t')))"
proof -
  let ?vi = "attr event ''validation_instance'' []"
  let ?name = "attr event ''image_id'' [] @ ''-promoted-'' @ strftime_Ymd_HMS (datetime_now env t)"
  let ?skip = "lower (attr event ''skip_destroy'' ''false'') = ''true''"
  note pc = promote_cleanup_promoting [OF vi scan promo payload, of fuel t]
  obtain out1 t1 where c: "create_image_from_vm fuel env ?vi ?name (PROJECT_ID env) t = (out1, t1)"
    by (cases "create_image_from_vm fuel env ?vi ?name (PROJECT_ID env) t")
  from create_image_inserts [OF c] obtain s1 where s1: "t1 = t @ s1"
    and ins1: "\<forall>e\<in>set s1. is_insert e \<longrightarrow>
                 (\<exists>src ans. e = ImagesInsert (PROJECT_ID env) (promoted_image_resource ?vi ?name src) ans)"
    by blast
  have tr: "\<exists>s2. snd (promote_cleanup fuel env event t) = t @ s1 @ s2 \<and> filter is_insert s2 = []"
  proof (cases out1)
    case (Returns img)
    obtain r2 t2 where cs: "cleanup_step fuel env ?skip (Some img) ?vi t1 = (r2, t2)"
      by (cases "cleanup_step fuel env ?skip (Some img) ?vi t1")
    from cleanup_step_addsD [OF cs] obtain s2 where "t2 = t1 @ s2" "filter is_insert s2 = []"
      by blast
    moreover from pc c Returns cs have "snd (promote_cleanup fuel env event t) = t2"
      by (cases r2) simp_all
    ultimately show ?thesis using s1 by simp
  next
    case (Raises e)
    with pc c s1 show ?thesis by simp
  next
    case Unfinished
    with pc c s1 show ?thesis by simp
  qed
  have a: "img_name img = ?name"
    if "snd (promote_cleanup fuel env event t) = t @ pre @ ImagesInsert p img answer # post"
    for pre p img answer post
  proof -
    from tr obtain s2 where s2: "snd (promote_cleanup fuel env event t) = t @ s1 @ s2"
      "filter is_insert s2 = []" by blast
    with that have "ImagesInsert p img answer \<in> set (s1 @ s2)"
      by (metis append_eq_append_conv append_assoc in_set_conv_decomp same_append_eq)
    moreover have "ImagesInsert p img answer \<notin> set s2"
      using s2(2) by (auto simp: filter_empty_conv)
    ultimately have "ImagesInsert p img answer \<in> set s1" by simp
    with ins1 obtain src ans where
      "ImagesInsert p img answer = ImagesInsert (PROJECT_ID env) (promoted_image_resource ?vi ?name src) ans"
      by fastforce
    then show ?thesis by (simp add: promoted_image_resource_def)
  qed
  have b: "img = ?name \<and>
        (\<exists>pre p image operation post.
           snd (promote_cleanup fuel env event t) =
             t @ pre @ ImagesInsert p image (Inr operation) # post \<and> img_name image = ?name) \<and>
        (\<forall>t2. cleanup_step fuel env ?skip (Some img) ?vi t1' = (Returns (), t2) \<longrightarrow>
           promote_cleanup fuel env event t =
             (Returns (Some \<lparr> res_status = ''success'', res_promoted_image = Some ?name,
                 res_validation_instance = ?vi,
                 res_timestamp = isoformat (datetime_now env t2) \<rparr>), t2))"
    if cr: "create_image_from_vm fuel env ?vi ?name (PROJECT_ID env) t = (Returns img, t1')"
    for img t1'
  proof -
    from create_image_Returns [OF cr] obtain a0 b0 src operation op' where
      img: "img = ?name"
      and dec: "t1' = t @ a0 @ ImagesInsert (PROJECT_ID env) (promoted_image_resource ?vi ?name src)
                  (Inr operation) # b0 @
                  [GlobalOperationsGet (PROJECT_ID env) (op_name operation) (Inr op'), Sleep 30]"
      by blast
    from cr c have eq: "out1 = Returns img" "t1' = t1" by simp_all
    from tr obtain s2 where s2: "snd (promote_cleanup fuel env event t) = t @ s1 @ s2" by blast
    from dec eq s1 have "s1 = a0 @ ImagesInsert (PROJECT_ID env) (promoted_image_resource ?vi ?name src)
                  (Inr operation) # b0 @
                  [GlobalOperationsGet (PROJECT_ID env) (op_name operation) (Inr op'), Sleep 30]"
      by simp
    with s2 have "snd (promote_cleanup fuel env event t) =
        t @ a0 @ ImagesInsert (PROJECT_ID env) (promoted_image_resource ?vi ?name src) (Inr operation) #
          ((b0 @ [GlobalOperationsGet (PROJECT_ID env) (op_name operation) (Inr op'), Sleep 30]) @ s2)"
      by simp
    moreover have "img_name (promoted_image_resource ?vi ?name src) = ?name"
      by (simp add: promoted_image_resource_def)
    ultimately have ex: "\<exists>pre p image operation post.
           snd (promote_cleanup fuel env event t) =
             t @ pre @ ImagesInsert p image (Inr operation) # post \<and> img_name image = ?name"
      by blast
    have "promote_cleanup fuel env event t =
             (Returns (Some \<lparr> res_status = ''success'', res_promoted_image = Some ?name,
                 res_validation_instance = ?vi,
                 res_timestamp = isoformat (datetime_now env t2) \<rparr>), t2)"
      if "cleanup_step fuel env ?skip (Some img) ?vi t1' = (Returns (), t2)" for t2
      using pc cr that img by simp
    with img ex show ?thesis by blast
  qed
  have d: "res_promoted_image r = Some ?name"
    if "promote_cleanup fuel env event t = (Returns (Some r), t')" for r t'
    using promote_cleanup_result_image [OF vi scan promo that] .
  have e: "(?name = attr event' ''image_id'' [] @ ''-promoted-'' @
                    strftime_Ymd_HMS (datetime_now env' t')) \<longleftrightarrow>
           strftime_Ymd_HMS (datetime_now env t) = strftime_Ymd_HMS (datetime_now env' t')"
    if "attr event' ''image_id'' [] = attr event ''image_id'' []" for env' event' t'
    using that by simp
  from a b d e show ?thesis by (intro conjI allI impI) blast+
qed

theorem promoted_image_naming_witness:
  "promote_cleanup (Suc 0) (collab_ok noon) passed_scan [] =
     (Returns (Some \<lparr> res_status = ''success'',
                      res_promoted_image = Some ''rhel9-promoted-20240102-120000'',
                      res_validation_instance = ''vm-1'',
                      res_timestamp = ''2024-01-02T12:00:00'' \<rparr>),
      [InstancesStop ''sandbox-dev-478813'' ZONE ''vm-1'' (Inr done_op),
       ZoneOperationsGet ''sandbox-dev-478813'' ZONE ''op-1'' (Inr done_op),
       InstancesGet ''sandbox-dev-478813'' ZONE ''vm-1'' (Inr running_vm),
       ImagesInsert ''sandbox-dev-478813''
         (promoted_image_resource ''vm-1'' ''rhel9-promoted-20240102-120000''
            ''projects/sandbox/zones/us-central1-a/disks/vm-1'') (Inr done_op),
       GlobalOperationsGet ''sandbox-dev-478813'' ''op-1'' (Inr done_op),
       Sleep 30, Sleep 5,
       InstancesGet ''sandbox-dev-478813'' ZONE ''vm-1'' (Inr running_vm),
       InstancesGet ''sandbox-dev-478813'' ZONE ''vm-1'' (Inr running_vm),
       InstancesGet ''sandbox-dev-478813'' ZONE ''vm-1'' (Inr running_vm),
       InstancesStop ''sandbox-dev-478813'' ZONE ''vm-1'' (Inr done_op),
       ZoneOperationsGet ''sandbox-dev-478813'' ZONE ''op-1'' (Inr done_op),
       InstancesDelete ''sandbox-dev-478813'' ZONE ''vm-1'' (Inr done_op),
       ZoneOperationsGet ''sandbox-dev-478813'' ZONE ''op-1'' (Inr done_op),
       Sleep 10])"
proof -
  have h: "attr passed_scan ''validation_instance'' [] \<noteq> []"
    "attr passed_scan ''scan_result'' [] = ''Pass''"
    "lower (attr passed_scan ''skip_promotion'' ''false'') \<noteq> ''true''"
    "payload_decodes (collab_ok noon) passed_scan"
    by (simp_all add: passed_scan_attrs)
  note w = promoted_image_naming [OF h, of "Suc 0" "[]"]
  let ?name = "attr passed_scan ''image_id'' [] @ ''-promoted-'' @
               strftime_Ymd_HMS (datetime_now (collab_ok noon) [])"
  let ?t1 = "[InstancesStop ''sandbox-dev-478813'' ZONE ''vm-1'' (Inr done_op),
       ZoneOperationsGet ''sandbox-dev-478813'' ZONE ''op-1'' (Inr done_op),
       InstancesGet ''sandbox-dev-478813'' ZONE ''vm-1'' (Inr running_vm),
       ImagesInsert ''sandbox-dev-478813''
         (promoted_image_resource ''vm-1'' ''rhel9-promoted-20240102-120000''
            ''projects/sandbox/zones/us-central1-a/disks/vm-1'') (Inr done_op),
       GlobalOperationsGet ''sandbox-dev-478813'' ''op-1'' (Inr done_op),
       Sleep 30]"
  let ?t2 = "?t1 @ [Sleep 5,
       InstancesGet ''sandbox-dev-478813'' ZONE ''vm-1'' (Inr running_vm),
       InstancesGet ''sandbox-dev-478813'' ZONE ''vm-1'' (Inr running_vm),
       InstancesGet ''sandbox-dev-478813'' ZONE ''vm-1'' (Inr running_vm),
       InstancesStop ''sandbox-dev-478813'' ZONE ''vm-1'' (Inr done_op),
       ZoneOperationsGet ''sandbox-dev-478813'' ZONE ''op-1'' (Inr done_op),
       InstancesDelete ''sandbox-dev-478813'' ZONE ''vm-1'' (Inr done_op),
       ZoneOperationsGet ''sandbox-dev-478813'' ZONE ''op-1'' (Inr done_op),
       Sleep 10]"
  have nm: "?name = ''rhel9-promoted-20240102-120000''"
    by (simp add: passed_scan_attrs collab_ok_env strftime_noon)
  have c: "create_image_from_vm (Suc 0) (collab_ok noon) (attr passed_scan ''validation_instance'' [])
             ?name (PROJECT_ID (collab_ok noon)) [] = (Returns ?name, ?t1)"
    unfolding nm by (simp add: passed_scan_attrs collab_ok_env ok_promotion)
  have cl: "cleanup_step (Suc 0) (collab_ok noon)
              (lower (attr passed_scan ''skip_destroy'' ''false'') = ''true'')
              (Some ?name) (attr passed_scan ''validation_instance'' []) ?t1 = (Returns (), ?t2)"
    unfolding nm by (simp add: passed_scan_attrs ok_cleanup ok_deletion)
  from w [THEN conjunct2, THEN conjunct1, rule_format, OF c,
          THEN conjunct2, THEN conjunct2, rule_format, OF cl]
  show ?thesis
    unfolding nm by (simp add: passed_scan_attrs collab_ok_env isoformats)
qed

text \<open>
  C6 as stated fails: two invocations for the same \<^verbatim>\<open>image_id\<close>, half a second apart,
  produce the same image name.
\<close>

theorem promoted_image_naming_counterexample:
  "noon \<noteq> half_past_noon \<and>
   fst (promote_cleanup (Suc 0) (collab_ok noon) passed_scan []) =
     Returns (Some \<lparr> res_status = ''success'',
                     res_promoted_image = Some ''rhel9-promoted-20240102-120000'',
                     res_validation_instance = ''vm-1'',
                     res_timestamp = ''2024-01-02T12:00:00'' \<rparr>) \<and>
   fst (promote_cleanup (Suc 0) (collab_ok half_past_noon) passed_scan []) =
     Returns (Some \<lparr> res_status = ''success'',
                     res_promoted_image = Some ''rhel9-promoted-20240102-120000'',
                     res_validation_instance = ''vm-1'',
                     res_timestamp = ''2024-01-02T12:00:00.500000'' \<rparr>)"
  by (simp add: ok_result strftime_noon strftime_half_past_noon isoformats)
     (simp add: half_past_noon_def noon_def)

text \<open>
  C5, as amended. At every attempt of \<^verbatim>\<open>delete_vm\<close> within its budget: if the read of
  the existence check raises a not-found error, \<^verbatim>\<open>delete_vm\<close> returns with that read as
  its only call. Once an attempt has reached the delete phase, its next call is the delete
  call; if the delete call or its wait raises an error whose lowered text contains
  \<^verbatim>\<open>not found\<close>, \<^verbatim>\<open>delete_vm\<close> returns at once; if it raises another error, the force
  stop runs, the delete call is issued again, and a not-found error of that second delete
  or its wait (as the retry handler tests it) makes \<^verbatim>\<open>delete_vm\<close> return at once, as
  does its success. A not-found error escaping an attempt makes \<^verbatim>\<open>delete_vm\<close> return
  at once. All this holds whatever the number of attempts left. A not-found error during
  stabilisation, the stop phase or the force stop is absorbed instead: stabilisation
  answers False, the stop phases raise nothing, and the attempt goes on to the delete call.
\<close>

theorem not_found_short_circuits:
  assumes le: "attempt \<le> max_retries"
  shows
    "delete_vm fuel env n p max_retries t = delete_vm_from fuel env n p max_retries 1 t \<and>
     (\<forall>m. instances_get env t p ZONE n = Inl m \<and>
           (contains ''not found'' (lower m) \<or> contains ''NOT_FOUND'' m) \<longrightarrow>
           delete_vm_from fuel env n p max_retries attempt t =
             (Returns (), t @ [InstancesGet p ZONE n (Inl m)])) \<and>
     (\<forall>t3. reaches_delete fuel env n p t t3 \<longrightarrow>
        (\<exists>s. snd (delete_vm_from fuel env n p max_retries attempt t) =
               t3 @ InstancesDelete p ZONE n (instances_delete env t3 p ZONE n) # s) \<and>
        (\<forall>m. instances_delete env t3 p ZONE n = Inl m \<longrightarrow>
           delete_and_wait fuel env n p t3 =
             (Raises (ClientError m), t3 @ [InstancesDelete p ZONE n (Inl m)])) \<and>
        (\<forall>t4. delete_and_wait fuel env n p t3 = (Returns (), t4) \<longrightarrow>
           delete_vm_from fuel env n p max_retries attempt t = (Returns (), t4)) \<and>
        (\<forall>e t4. delete_and_wait fuel env n p t3 = (Raises e, t4) \<and>
                 contains ''not found'' (lower (str e)) \<longrightarrow>
           delete_vm_from fuel env n p max_retries attempt t = (Returns (), t4)) \<and>
        (\<forall>e t4 t5. delete_and_wait fuel env n p t3 = (Raises e, t4) \<and>
                    \<not> contains ''not found'' (lower (str e)) \<and>
                    force_stop fuel env n p t4 = (Returns (), t5) \<longrightarrow>
           (\<exists>s. snd (delete_vm_from fuel env n p max_retries attempt t) =
                  t5 @ InstancesDelete p ZONE n (instances_delete env t5 p ZONE n) # s) \<and>
           (\<forall>t6. delete_and_wait fuel env n p t5 = (Returns (), t6) \<longrightarrow>
              delete_vm_from fuel env n p max_retries attempt t = (Returns (), t6)) \<and>
           (\<forall>e' t6. delete_and_wait fuel env n p t5 = (Raises e', t6) \<and> retry_not_found e' \<longrightarrow>
              delete_vm_from fuel env n p max_retries attempt t = (Returns (), t6)))) \<and>
     (\<forall>e t1. delete_vm_attempt fuel env n p t = (Raises e, t1) \<and> retry_not_found e \<longrightarrow>
        delete_vm_from fuel env n p max_retries attempt t = (Returns (), t1)) \<and>
     (\<forall>m k. instances_get env t p ZONE n = Inl m \<and>
             (contains ''not found'' (lower m) \<or> contains ''NOT_FOUND'' m) \<longrightarrow>
        wait_for_vm_stable (Suc k) env n p 60 t =
          (Returns False, t @ [InstancesGet p ZONE n (Inl m)])) \<and>
     (\<forall>e' t'. wait_for_vm_stable fuel env n p 60 t = (Raises e', t') \<longrightarrow>
        \<not> contains ''not found'' (lower (str e')) \<and> \<not> contains ''NOT_FOUND'' (str e')) \<and>
     (\<forall>e'. fst (try_stop fuel env n p t) \<noteq> Raises e') \<and>
     (\<forall>e'. fst (force_stop fuel env n p t) \<noteq> Raises e')"
proof (intro conjI)
  show "delete_vm fuel env n p max_retries t = delete_vm_from fuel env n p max_retries 1 t"
    by (simp add: delete_vm_def)
  show "\<forall>m. instances_get env t p ZONE n = Inl m \<and>
           (contains ''not found'' (lower m) \<or> contains ''NOT_FOUND'' m) \<longrightarrow>
           delete_vm_from fuel env n p max_retries attempt t =
             (Returns (), t @ [InstancesGet p ZONE n (Inl m)])"
  proof (intro allI impI)
    fix m
    assume a: "instances_get env t p ZONE n = Inl m \<and>
                 (contains ''not found'' (lower m) \<or> contains ''NOT_FOUND'' m)"
    then have "check_vm_exists env n p t = (Returns False, t @ [InstancesGet p ZONE n (Inl m)])"
      using check_not_found [of env t p n m] by blast
    then have "delete_vm_attempt fuel env n p t =
                 (Returns (), t @ [InstancesGet p ZONE n (Inl m)])"
      by (simp add: delete_vm_attempt_def)
    from attempt_returns [OF this le]
    show "delete_vm_from fuel env n p max_retries attempt t =
             (Returns (), t @ [InstancesGet p ZONE n (Inl m)])" .
  qed
  show "\<forall>t3. reaches_delete fuel env n p t t3 \<longrightarrow>
        (\<exists>s. snd (delete_vm_from fuel env n p max_retries attempt t) =
               t3 @ InstancesDelete p ZONE n (instances_delete env t3 p ZONE n) # s) \<and>
        (\<forall>m. instances_delete env t3 p ZONE n = Inl m \<longrightarrow>
           delete_and_wait fuel env n p t3 =
             (Raises (ClientError m), t3 @ [InstancesDelete p ZONE n (Inl m)])) \<and>
        (\<forall>t4. delete_and_wait fuel env n p t3 = (Returns (), t4) \<longrightarrow>
           delete_vm_from fuel env n p max_retries attempt t = (Returns (), t4)) \<and>
        (\<forall>e t4. delete_and_wait fuel env n p t3 = (Raises e, t4) \<and>
                 contains ''not found'' (lower (str e)) \<longrightarrow>
           delete_vm_from fuel env n p max_retries attempt t = (Returns (), t4)) \<and>
        (\<forall>e t4 t5. delete_and_wait fuel env n p t3 = (Raises e, t4) \<and>
                    \<not> contains ''not found'' (lower (str e)) \<and>
                    force_stop fuel env n p t4 = (Returns (), t5) \<longrightarrow>
           (\<exists>s. snd (delete_vm_from fuel env n p max_retries attempt t) =
                  t5 @ InstancesDelete p ZONE n (instances_delete env t5 p ZONE n) # s) \<and>
           (\<forall>t6. delete_and_wait fuel env n p t5 = (Returns (), t6) \<longrightarrow>
              delete_vm_from fuel env n p max_retries attempt t = (Returns (), t6)) \<and>
           (\<forall>e' t6. delete_and_wait fuel env n p t5 = (Raises e', t6) \<and> retry_not_found e' \<longrightarrow>
              delete_vm_from fuel env n p max_retries attempt t = (Returns (), t6)))"
  proof (intro allI impI)
    fix t3
    assume reach: "reaches_delete fuel env n p t t3"
    note f = delete_phase_facts [OF le reach]
    show "(\<exists>s. snd (delete_vm_from fuel env n p max_retries attempt t) =
               t3 @ InstancesDelete p ZONE n (instances_delete env t3 p ZONE n) # s) \<and>
        (\<forall>m. instances_delete env t3 p ZONE n = Inl m \<longrightarrow>
           delete_and_wait fuel env n p t3 =
             (Raises (ClientError m), t3 @ [InstancesDelete p ZONE n (Inl m)])) \<and>
        (\<forall>t4. delete_and_wait fuel env n p t3 = (Returns (), t4) \<longrightarrow>
           delete_vm_from fuel env n p max_retries attempt t = (Returns (), t4)) \<and>
        (\<forall>e t4. delete_and_wait fuel env n p t3 = (Raises e, t4) \<and>
                 contains ''not found'' (lower (str e)) \<longrightarrow>
           delete_vm_from fuel env n p max_retries attempt t = (Returns (), t4)) \<and>
        (\<forall>e t4 t5. delete_and_wait fuel env n p t3 = (Raises e, t4) \<and>
                    \<not> contains ''not found'' (lower (str e)) \<and>
                    force_stop fuel env n p t4 = (Returns (), t5) \<longrightarrow>
           (\<exists>s. snd (delete_vm_from fuel env n p max_retries attempt t) =
                  t5 @ InstancesDelete p ZONE n (instances_delete env t5 p ZONE n) # s) \<and>
           (\<forall>t6. delete_and_wait fuel env n p t5 = (Returns (), t6) \<longrightarrow>
              delete_vm_from fuel env n p max_retries attempt t = (Returns (), t6)) \<and>
           (\<forall>e' t6. delete_and_wait fuel env n p t5 = (Raises e', t6) \<and> retry_not_found e' \<longrightarrow>
              delete_vm_from fuel env n p max_retries attempt t = (Returns (), t6)))"
    proof (intro conjI allI impI; (elim conjE)?)
      show "\<exists>s. snd (delete_vm_from fuel env n p max_retries attempt t) =
               t3 @ InstancesDelete p ZONE n (instances_delete env t3 p ZONE n) # s"
        by (rule f(1))
    next
      fix m assume "instances_delete env t3 p ZONE n = Inl m"
      then show "delete_and_wait fuel env n p t3 =
             (Raises (ClientError m), t3 @ [InstancesDelete p ZONE n (Inl m)])"
        by (rule delete_and_wait_call_raises)
    next
      fix t4 assume "delete_and_wait fuel env n p t3 = (Returns (), t4)"
      then show "delete_vm_from fuel env n p max_retries attempt t = (Returns (), t4)"
        by (rule f(2))
    next
      fix e t4
      assume "delete_and_wait fuel env n p t3 = (Raises e, t4)"
        "contains ''not found'' (lower (str e))"
      then show "delete_vm_from fuel env n p max_retries attempt t = (Returns (), t4)"
        by (rule f(3))
    next
      fix e t4 t5
      assume "delete_and_wait fuel env n p t3 = (Raises e, t4)"
        "\<not> contains ''not found'' (lower (str e))" "force_stop fuel env n p t4 = (Returns (), t5)"
      then show "\<exists>s. snd (delete_vm_from fuel env n p max_retries attempt t) =
                  t5 @ InstancesDelete p ZONE n (instances_delete env t5 p ZONE n) # s"
        by (rule f(4))
    next
      fix e t4 t5 t6
      assume "delete_and_wait fuel env n p t3 = (Raises e, t4)"
        "\<not> contains ''not found'' (lower (str e))" "force_stop fuel env n p t4 = (Returns (), t5)"
        "delete_and_wait fuel env n p t5 = (Returns (), t6)"
      then show "delete_vm_from fuel env n p max_retries attempt t = (Returns (), t6)"
        by (rule f(5))
    next
      fix e t4 t5 e' t6
      assume "delete_and_wait fuel env n p t3 = (Raises e, t4)"
        "\<not> contains ''not found'' (lower (str e))" "force_stop fuel env n p t4 = (Returns (), t5)"
        "delete_and_wait fuel env n p t5 = (Raises e', t6)" "retry_not_found e'"
      then show "delete_vm_from fuel env n p max_retries attempt t = (Returns (), t6)"
        by (rule f(6))
    qed
  qed
  show "\<forall>e t1. delete_vm_attempt fuel env n p t = (Raises e, t1) \<and> retry_not_found e \<longrightarrow>
        delete_vm_from fuel env n p max_retries attempt t = (Returns (), t1)"
    using attempt_not_found [OF _ _ le] by blast
  show "\<forall>m k. instances_get env t p ZONE n = Inl m \<and>
             (contains ''not found'' (lower m) \<or> contains ''NOT_FOUND'' m) \<longrightarrow>
        wait_for_vm_stable (Suc k) env n p 60 t =
          (Returns False, t @ [InstancesGet p ZONE n (Inl m)])"
    using stabilisation_not_found [of env t p n] by blast
  show "\<forall>e' t'. wait_for_vm_stable fuel env n p 60 t = (Raises e', t') \<longrightarrow>
        \<not> contains ''not found'' (lower (str e')) \<and> \<not> contains ''NOT_FOUND'' (str e')"
    unfolding wait_for_vm_stable_def
    using wait_stable_loop_raises [of fuel env n p 60 "time_time env t" t] by blast
  show "\<forall>e'. fst (try_stop fuel env n p t) \<noteq> Raises e'"
    by (simp add: try_stop_never_raises)
  show "\<forall>e'. fst (force_stop fuel env n p t) \<noteq> Raises e'"
    by (simp add: force_stop_never_raises)
qed

theorem not_found_short_circuits_witness:
  "delete_vm 0 (collab_raising ''not found'') ''vm-1'' ''sandbox'' 3 [] =
     (Returns (), [InstancesGet ''sandbox'' ZONE ''vm-1'' (Inl ''not found'')]) \<and>
   delete_vm (Suc 0) collab_gone_midway ''vm-1'' ''sandbox'' 3 [] =
     (Returns (),
      [InstancesGet ''sandbox'' ZONE ''vm-1'' (Inr running_vm),
       InstancesGet ''sandbox'' ZONE ''vm-1'' (Inl ''not found''),
       InstancesGet ''sandbox'' ZONE ''vm-1'' (Inl ''not found''),
       InstancesDelete ''sandbox'' ZONE ''vm-1'' (Inl ''not found'')]) \<and>
   delete_vm (Suc 0) collab_gone_on_force ''vm-1'' ''sandbox'' 3 [] =
     (Returns (),
      [InstancesGet ''sandbox'' ZONE ''vm-1'' (Inr running_vm),
       InstancesGet ''sandbox'' ZONE ''vm-1'' (Inr running_vm),
       InstancesGet ''sandbox'' ZONE ''vm-1'' (Inr running_vm),
       InstancesStop ''sandbox'' ZONE ''vm-1'' (Inr done_op),
       ZoneOperationsGet ''sandbox'' ZONE ''op-1'' (Inr done_op),
       InstancesDelete ''sandbox'' ZONE ''vm-1'' (Inl ''boom''),
       InstancesGet ''sandbox'' ZONE ''vm-1'' (Inr running_vm),
       InstancesStop ''sandbox'' ZONE ''vm-1'' (Inr done_op),
       ZoneOperationsGet ''sandbox'' ZONE ''op-1'' (Inr done_op),
       Sleep 5,
       InstancesDelete ''sandbox'' ZONE ''vm-1'' (Inl ''not found'')])"
proof -
  have le: "(1::int) \<le> 3" by simp
  note a = not_found_short_circuits
             [OF le, where fuel = 0 and env = "collab_raising ''not found''" and n = "''vm-1''"
               and p = "''sandbox''" and t = "[]"]
  have ga: "instances_get (collab_raising ''not found'') [] ''sandbox'' ZONE ''vm-1'' =
              Inl ''not found''"
    by (simp add: collab_raising_def)
  from a [THEN conjunct2, THEN conjunct1, rule_format, of "''not found''"] ga
  have "delete_vm_from 0 (collab_raising ''not found'') ''vm-1'' ''sandbox'' 3 1 [] =
          (Returns (), [InstancesGet ''sandbox'' ZONE ''vm-1'' (Inl ''not found'')])"
    by simp
  with a [THEN conjunct1] have r1:
    "delete_vm 0 (collab_raising ''not found'') ''vm-1'' ''sandbox'' 3 [] =
       (Returns (), [InstancesGet ''sandbox'' ZONE ''vm-1'' (Inl ''not found'')])"
    by simp
  note b = not_found_short_circuits
             [OF le, where fuel = "Suc 0" and env = collab_gone_midway and n = "''vm-1''"
               and p = "''sandbox''" and t = "[]"]
  note b3 = b [THEN conjunct2, THEN conjunct2, THEN conjunct1, rule_format,
               OF gone_midway_facts(1)]
  from b3 gone_midway_facts(2) [of "''sandbox''"] not_found_texts(1)
  have "delete_vm_from (Suc 0) collab_gone_midway ''vm-1'' ''sandbox'' 3 1 [] =
     (Returns (),
      [InstancesGet ''sandbox'' ZONE ''vm-1'' (Inr running_vm),
       InstancesGet ''sandbox'' ZONE ''vm-1'' (Inl ''not found''),
       InstancesGet ''sandbox'' ZONE ''vm-1'' (Inl ''not found''),
       InstancesDelete ''sandbox'' ZONE ''vm-1'' (Inl ''not found'')])"
    by blast
  with b [THEN conjunct1] have r2:
    "delete_vm (Suc 0) collab_gone_midway ''vm-1'' ''sandbox'' 3 [] =
     (Returns (),
      [InstancesGet ''sandbox'' ZONE ''vm-1'' (Inr running_vm),
       InstancesGet ''sandbox'' ZONE ''vm-1'' (Inl ''not found''),
       InstancesGet ''sandbox'' ZONE ''vm-1'' (Inl ''not found''),
       InstancesDelete ''sandbox'' ZONE ''vm-1'' (Inl ''not found'')])"
    by simp
  note c = not_found_short_circuits
             [OF le, where fuel = "Suc 0" and env = collab_gone_on_force and n = "''vm-1''"
               and p = "''sandbox''" and t = "[]"]
  note c3 = c [THEN conjunct2, THEN conjunct2, THEN conjunct1, rule_format,
               OF gone_on_force_facts(1)]
  from c3 gone_on_force_facts(2,3,4) [of "''sandbox''"] not_found_texts(2,3)
  have "delete_vm_from (Suc 0) collab_gone_on_force ''vm-1'' ''sandbox'' 3 1 [] =
     (Returns (),
      [InstancesGet ''sandbox'' ZONE ''vm-1'' (Inr running_vm),
       InstancesGet ''sandbox'' ZONE ''vm-1'' (Inr running_vm),
       InstancesGet ''sandbox'' ZONE ''vm-1'' (Inr running_vm),
       InstancesStop ''sandbox'' ZONE ''vm-1'' (Inr done_op),
       ZoneOperationsGet ''sandbox'' ZONE ''op-1'' (Inr done_op),
       InstancesDelete ''sandbox'' ZONE ''vm-1'' (Inl ''boom''),
       InstancesGet ''sandbox'' ZONE ''vm-1'' (Inr running_vm),
       InstancesStop ''sandbox'' ZONE ''vm-1'' (Inr done_op),
       ZoneOperationsGet ''sandbox'' ZONE ''op-1'' (Inr done_op),
       Sleep 5,
       InstancesDelete ''sandbox'' ZONE ''vm-1'' (Inl ''not found'')])"
    by blast
  with c [THEN conjunct1] have r3:
    "delete_vm (Suc 0) collab_gone_on_force ''vm-1'' ''sandbox'' 3 [] =
     (Returns (),
      [InstancesGet ''sandbox'' ZONE ''vm-1'' (Inr running_vm),
       InstancesGet ''sandbox'' ZONE ''vm-1'' (Inr running_vm),
       InstancesGet ''sandbox'' ZONE ''vm-1'' (Inr running_vm),
       InstancesStop ''sandbox'' ZONE ''vm-1'' (Inr done_op),
       ZoneOperationsGet ''sandbox'' ZONE ''op-1'' (Inr done_op),
       InstancesDelete ''sandbox'' ZONE ''vm-1'' (Inl ''boom''),
       InstancesGet ''sandbox'' ZONE ''vm-1'' (Inr running_vm),
       InstancesStop ''sandbox'' ZONE ''vm-1'' (Inr done_op),
       ZoneOperationsGet ''sandbox'' ZONE ''op-1'' (Inr done_op),
       Sleep 5,
       InstancesDelete ''sandbox'' ZONE ''vm-1'' (Inl ''not found'')])"
    by simp
  from r1 r2 r3 show ?thesis by (intro conjI)
qed

text \<open>
  C5 as stated fails: a not-found error during stabilisation does not end \<^verbatim>\<open>delete_vm\<close>.
  The attempt goes on to the stop phase and the delete calls, and here, where every later
  call fails, \<^verbatim>\<open>delete_vm\<close> uses all three attempts and raises.
\<close>

theorem not_found_short_circuits_counterexample:
  "delete_vm (Suc 0) collab_vanishing ''vm-1'' ''sandbox'' 3 [] =
     (Raises (ClientError ''boom''),
      [InstancesGet ''sandbox'' ZONE ''vm-1'' (Inr running_vm),
       InstancesGet ''sandbox'' ZONE ''vm-1'' (Inl ''not found''),
       InstancesGet ''sandbox'' ZONE ''vm-1'' (Inl ''boom''),
       InstancesDelete ''sandbox'' ZONE ''vm-1'' (Inl ''boom''),
       InstancesGet ''sandbox'' ZONE ''vm-1'' (Inl ''boom''),
       InstancesDelete ''sandbox'' ZONE ''vm-1'' (Inl ''boom''),
       Sleep 5,
       InstancesGet ''sandbox'' ZONE ''vm-1'' (Inl ''boom''),
       Sleep 10,
       InstancesGet ''sandbox'' ZONE ''vm-1'' (Inl ''boom'')])"
  by (simp add: delete_vm_def delete_vm_from.simps delete_vm_attempt_def check_vm_exists_def
        wait_for_vm_stable_def try_stop_def stop_if_running_def try_delete_def delete_and_wait_def
        force_delete_def force_stop_def
        call_instances_stop_def call_instances_get_def call_instances_delete_def
        collab_vanishing_def)

end
